theory Spec2Isabelle
  imports Complex_Main
begin

section \<open>Python values and errors\<close>

text \<open>
  The exceptions that the modelled code, NumPy and PyTorch raise.  A function that can raise
  returns \<open>error + 'a\<close>, with \<open>Inl\<close> for the exception.
\<close>

datatype error =
    ValueError | KeyError | TypeError | IndexError | RuntimeError
  | AssertionError | ZeroDivisionError

text \<open>
  The objects that reach \<open>sent2str\<close> as \<open>sent_as_np\<close>: a NumPy array of ids of one or of
  two dimensions, or an object that is no NumPy array (a Python list of ids, \<open>None\<close>).
\<close>

datatype pyobj =
    NdArray1 "int list"
  | NdArray2 "int list list"
  | PyList "int list"
  | PyNone

text \<open>\<open>isinstance(x, np.ndarray)\<close>\<close>

fun is_ndarray :: "pyobj \<Rightarrow> bool" where
  "is_ndarray (NdArray1 _) = True"
| "is_ndarray (NdArray2 _) = True"
| "is_ndarray (PyList _) = False"
| "is_ndarray PyNone = False"

text \<open>Truth value of an optional integer: \<open>None\<close> and \<open>0\<close> are falsy.\<close>

fun truthy :: "int option \<Rightarrow> bool" where
  "truthy None = False"
| "truthy (Some n) = (n \<noteq> 0)"

text \<open>\<open>sep.join(words)\<close>\<close>

fun join :: "string \<Rightarrow> string list \<Rightarrow> string" where
  "join sep [] = []"
| "join sep [w] = w"
| "join sep (w # v # ws) = w @ sep @ join sep (v # ws)"

text \<open>
  \<open>[id2word[i] for i in ids]\<close> over a dictionary: the first missing key raises \<open>KeyError\<close>.
\<close>

fun lookup_all :: "(int \<rightharpoonup> string) \<Rightarrow> int list \<Rightarrow> error + string list" where
  "lookup_all d [] = Inr []"
| "lookup_all d (i # is) =
     (case d i of
        None \<Rightarrow> Inl KeyError
      | Some w \<Rightarrow> (case lookup_all d is of Inl e \<Rightarrow> Inl e | Inr ws \<Rightarrow> Inr (w # ws)))"

section \<open>Sentence reconstruction (evaluate.py)\<close>

text \<open>
  \<open>np.where(a == v)[0]\<close> on a one-dimensional array: the positions that hold \<open>v\<close>, ascending.
\<close>

definition where1 :: "int list \<Rightarrow> int \<Rightarrow> nat list" where
  "where1 xs v = filter (\<lambda>k. xs ! k = v) [0..<length xs]"

text \<open>
  \<open>np.where(a == v)[0]\<close> on a two-dimensional array: the row index of every entry that holds
  \<open>v\<close>, in row-major order (a row is listed once for each of its matching entries).
\<close>

definition where2 :: "int list list \<Rightarrow> int \<Rightarrow> nat list" where
  "where2 rows v =
     concat (map (\<lambda>r. replicate (length (filter (\<lambda>x. x = v) (rows ! r))) r) [0..<length rows])"

text \<open>
  \<open>int(a)\<close> on a NumPy array \<open>a\<close> of one dimension depends on the NumPy release.  NumPy 1.x
  returns the element of an array of exactly one element (from release 1.25 on with a
  \<open>DeprecationWarning\<close>) and raises \<open>TypeError\<close> for every other size; releases that have
  removed this conversion (NumPy 2.4 does) raise \<open>TypeError\<close> for every array of one
  dimension.  The release is a parameter of the model.
\<close>

datatype numpy = SizeOneToScalar | ZeroDimToScalarOnly

fun int_of_array :: "numpy \<Rightarrow> nat list \<Rightarrow> error + nat" where
  "int_of_array SizeOneToScalar [k] = Inr k"
| "int_of_array SizeOneToScalar ks = Inl TypeError"
| "int_of_array ZeroDimToScalarOnly ks = Inl TypeError"

text \<open>
  The truncation of \<open>sent2str\<close> and \<open>tensor2text\<close>, on the index array \<open>end_id\<close>:
  \<^verbatim>\<open>
      if len(end_id) > 1:
          sent_as_np = sent_as_np[:int(end_id[0])]
      elif len(end_id) == 1:
          sent_as_np = sent_as_np[:int(end_id)]
  \<close>
  The first branch converts the element \<open>end_id[0]\<close>, a NumPy integer; the second converts
  the array \<open>end_id\<close> itself.
\<close>

definition truncate_at :: "numpy \<Rightarrow> nat list \<Rightarrow> 'a list \<Rightarrow> error + 'a list" where
  "truncate_at np end_id sent =
     (if length end_id > 1 then Inr (take (hd end_id) sent)
      else if length end_id = 1
      then (case int_of_array np end_id of Inl e \<Rightarrow> Inl e | Inr k \<Rightarrow> Inr (take k sent))
      else Inr sent)"

text \<open>
  \<^verbatim>\<open>
  def sent2str(sent_as_np, id2word, eos_id=None):
      if not (isinstance(sent_as_np, np.ndarray)):
          raise ValueError('Invalid input type, expected np array')
      if eos_id:
          end_id = np.where(sent_as_np == eos_id)[0]
          ...
      return " ".join([id2word[i] for i in sent_as_np])
  \<close>
  Iterating a two-dimensional array yields its rows, which are arrays and not hashable: the
  dictionary lookup of the first row raises \<open>TypeError\<close>.
\<close>

fun sent2str :: "numpy \<Rightarrow> pyobj \<Rightarrow> (int \<rightharpoonup> string) \<Rightarrow> int option \<Rightarrow> error + string" where
  "sent2str np (NdArray1 xs) id2word eos_id =
     (case (if truthy eos_id then truncate_at np (where1 xs (the eos_id)) xs else Inr xs) of
        Inl e \<Rightarrow> Inl e
      | Inr sent \<Rightarrow>
          (case lookup_all id2word sent of
             Inl e \<Rightarrow> Inl e
           | Inr ws \<Rightarrow> Inr (join '' '' ws)))"
| "sent2str np (NdArray2 rows) id2word eos_id =
     (case (if truthy eos_id then truncate_at np (where2 rows (the eos_id)) rows else Inr rows) of
        Inl e \<Rightarrow> Inl e
      | Inr sent \<Rightarrow> if sent = [] then Inr (join '' '' []) else Inl TypeError)"
| "sent2str np (PyList _) id2word eos_id = Inl ValueError"
| "sent2str np PyNone id2word eos_id = Inl ValueError"

text \<open>
  \<open>torch.argmax(v, -1)\<close> on one score vector: the index of the first maximal value; an empty
  vector has no maximum and PyTorch raises.
\<close>

fun argmax_from :: "real list \<Rightarrow> nat \<Rightarrow> nat \<Rightarrow> real \<Rightarrow> nat" where
  "argmax_from [] k best v = best"
| "argmax_from (x # xs) k best v =
     (if v < x then argmax_from xs (Suc k) k x else argmax_from xs (Suc k) best v)"

fun argmax :: "real list \<Rightarrow> error + int" where
  "argmax [] = Inl IndexError"
| "argmax (x # xs) = Inr (int (argmax_from xs 1 0 x))"

text \<open>Collecting the results of a comprehension whose elements can raise.\<close>

fun collect :: "(error + 'a) list \<Rightarrow> error + 'a list" where
  "collect [] = Inr []"
| "collect (r # rs) =
     (case r of
        Inl e \<Rightarrow> Inl e
      | Inr x \<Rightarrow> (case collect rs of Inl e \<Rightarrow> Inl e | Inr xs \<Rightarrow> Inr (x # xs)))"

text \<open>\<open>torch.argmax(preds, -1)\<close> on a tensor of shape (batch, length, vocabulary).\<close>

definition argmax_last :: "real list list list \<Rightarrow> error + int list list" where
  "argmax_last preds = collect (map (\<lambda>sample. collect (map argmax sample)) preds)"

text \<open>
  \<open>t.squeeze(0).detach().cpu().numpy()\<close> on a tensor of shape (batch, length): the first
  dimension is removed when its size is 1, and stays otherwise.
\<close>

fun squeeze0_numpy :: "int list list \<Rightarrow> pyobj" where
  "squeeze0_numpy [row] = NdArray1 row"
| "squeeze0_numpy rows = NdArray2 rows"

text \<open>
  \<^verbatim>\<open>
  def greedy_decode_sent(preds, id2word, eos_id):
      preds = torch.argmax(preds, -1)
      decoded_sent = preds.squeeze(0).detach().cpu().numpy()
      decoded_sent = sent2str(decoded_sent, id2word, eos_id)
      return decoded_sent, preds
  \<close>
\<close>

definition greedy_decode_sent ::
  "numpy \<Rightarrow> real list list list \<Rightarrow> (int \<rightharpoonup> string) \<Rightarrow> int option \<Rightarrow>
   error + (string \<times> int list list)"
where
  "greedy_decode_sent np preds id2word eos_id =
     (case argmax_last preds of
        Inl e \<Rightarrow> Inl e
      | Inr ids \<Rightarrow>
          (case sent2str np (squeeze0_numpy ids) id2word eos_id of
             Inl e \<Rightarrow> Inl e
           | Inr decoded_sent \<Rightarrow> Inr (decoded_sent, ids)))"

section \<open>Batch generation (evaluate.py)\<close>

text \<open>
  The vocabulary of the field: \<open>itos\<close> is a Python list of tokens, \<open>stoi\<close> a dictionary from
  token to id.
\<close>

record vocab =
  itos :: "string list"
  stoi :: "string \<rightharpoonup> int"

text \<open>
  \<open>xs[i]\<close> on a Python list: a negative index counts from the end, an index out of range
  raises \<open>IndexError\<close>.
\<close>

definition list_index :: "'a list \<Rightarrow> int \<Rightarrow> error + 'a" where
  "list_index xs i =
     (if 0 \<le> i \<and> i < int (length xs) then Inr (xs ! nat i)
      else if i < 0 \<and> - int (length xs) \<le> i then Inr (xs ! nat (int (length xs) + i))
      else Inl IndexError)"

text \<open>
  One sample of \<open>tensor2text\<close>: the truncation at the first \<open>eos_idx\<close> (here with no test of
  the truth value of \<open>eos_idx\<close>), then \<open>" ".join([index2word[i] for i in sample])\<close>.
\<close>

definition sample2text :: "numpy \<Rightarrow> string list \<Rightarrow> int \<Rightarrow> int list \<Rightarrow> error + string" where
  "sample2text np index2word eos_idx sample =
     (case truncate_at np (where1 sample eos_idx) sample of
        Inl e \<Rightarrow> Inl e
      | Inr sent \<Rightarrow>
          (case collect (map (list_index index2word) sent) of
             Inl e \<Rightarrow> Inl e
           | Inr ws \<Rightarrow> Inr (join '' '' ws)))"

text \<open>
  \<^verbatim>\<open>
  def tensor2text(vocab, tensor):
      index2word = vocab.itos
      eos_idx = vocab.stoi['<eos>']
      for sample in tensor:
        ...
        text.append(" ".join([index2word[i] for i in sample]))
      return text
  \<close>
\<close>

definition tensor2text :: "numpy \<Rightarrow> vocab \<Rightarrow> int list list \<Rightarrow> error + string list" where
  "tensor2text np v tensor =
     (case stoi v ''<eos>'' of
        None \<Rightarrow> Inl KeyError
      | Some eos_idx \<Rightarrow> collect (map (sample2text np (itos v) eos_idx) tensor))"

text \<open>
  The label flip \<open>(~labels.bool()).long()\<close>, in its three steps: \<open>.bool()\<close> is true on every
  nonzero label, \<open>~\<close> negates a boolean tensor, \<open>.long()\<close> gives 1 for true and 0 for false.
\<close>

definition tensor_bool :: "int list \<Rightarrow> bool list" where
  "tensor_bool labels = map (\<lambda>x. x \<noteq> 0) labels"

definition tensor_not :: "bool list \<Rightarrow> bool list" where
  "tensor_not bs = map (\<lambda>b. \<not> b) bs"

definition tensor_long :: "bool list \<Rightarrow> int list" where
  "tensor_long bs = map (\<lambda>b. if b then 1 else 0) bs"

definition flip_labels :: "int list \<Rightarrow> int list" where
  "flip_labels labels = tensor_long (tensor_not (tensor_bool labels))"

text \<open>A batch of the data iterator: token ids of shape (batch, length), one label per sample.\<close>

record batch =
  batch_text :: "int list list"
  batch_label :: "int list"

text \<open>
  The loop of \<open>generate_sentences\<close> from batch number \<open>i\<close> on, with the three collections as
  accumulator.  \<open>model_gen\<close> is the generator network and \<open>src_mask_of\<close> the source mask of
  \<open>make_masks\<close> (module \<open>data\<close>); both are parameters.
  \<^verbatim>\<open>
      for i, batch in enumerate(data_iter):
          src, labels = batch.text, batch.label
          src_mask, _ = make_masks(src, src, device)
          neg_labels = (~labels.bool()).long()
          preds = model_gen(src, src_mask, neg_labels)
          preds = torch.argmax(preds, dim=-1)
          test_generated_sentences += tensor2text(vocab, preds)
          test_original_sentences += tensor2text(vocab, src)
          test_original_labels += labels.detach().cpu().tolist()
          if limit and i == (limit - 1):
            break
  \<close>
\<close>

fun generate_loop ::
  "numpy \<Rightarrow> (int list list \<Rightarrow> 'm \<Rightarrow> int list \<Rightarrow> real list list list) \<Rightarrow> (int list list \<Rightarrow> 'm) \<Rightarrow>
   vocab \<Rightarrow> int option \<Rightarrow> nat \<Rightarrow> batch list \<Rightarrow>
   string list \<times> string list \<times> int list \<Rightarrow> error + (string list \<times> string list \<times> int list)"
where
  "generate_loop np model_gen src_mask_of v limit i [] acc = Inr acc"
| "generate_loop np model_gen src_mask_of v limit i (b # bs) (gen, org, labs) =
     (let src = batch_text b; labels = batch_label b;
          src_mask = src_mask_of src;
          neg_labels = flip_labels labels
      in case argmax_last (model_gen src src_mask neg_labels) of
           Inl e \<Rightarrow> Inl e
         | Inr preds \<Rightarrow>
            (case tensor2text np v preds of
               Inl e \<Rightarrow> Inl e
             | Inr g \<Rightarrow>
                (case tensor2text np v src of
                   Inl e \<Rightarrow> Inl e
                 | Inr s \<Rightarrow>
                    (let acc' = (gen @ g, org @ s, labs @ labels)
                     in if truthy limit \<and> int i = the limit - 1 then Inr acc'
                        else generate_loop np model_gen src_mask_of v limit (Suc i) bs acc'))))"

definition generate_sentences ::
  "numpy \<Rightarrow> (int list list \<Rightarrow> 'm \<Rightarrow> int list \<Rightarrow> real list list list) \<Rightarrow> (int list list \<Rightarrow> 'm) \<Rightarrow>
   batch list \<Rightarrow> vocab \<Rightarrow> int option \<Rightarrow> error + (string list \<times> string list \<times> int list)"
where
  "generate_sentences np model_gen src_mask_of data_iter v limit =
     generate_loop np model_gen src_mask_of v limit 0 data_iter ([], [], [])"

text \<open>The batches that the loop of \<open>generate_sentences\<close> reaches under a limit.\<close>

definition limited :: "int option \<Rightarrow> 'a list \<Rightarrow> 'a list" where
  "limited limit bs = (case limit of None \<Rightarrow> bs | Some n \<Rightarrow> if 0 < n then take (nat n) bs else bs)"

section \<open>The evaluation loop (evaluate.py)\<close>

text \<open>
  The networks and criteria that \<open>evaluate\<close> receives, and \<open>make_masks\<close> of module \<open>data\<close>:
  all are parameters of the loop.  \<open>'e\<close> is the encoder output, \<open>'c\<close> the classifier output of
  a batch, \<open>'p\<close> the vocabulary distribution of one position (the decoder returns a tensor of
  shape (batch, length, vocabulary)), \<open>'v\<close> a loss value, \<open>'m\<close> and \<open>'t\<close> the two masks.
\<close>

record ('e, 'c, 'p, 'v, 'm, 't) nets =
  model_enc :: "int list list \<Rightarrow> 'm \<Rightarrow> 'e"
  model_cls :: "'e \<Rightarrow> 'c"
  model_dec :: "'e \<Rightarrow> int list \<Rightarrow> 'm \<Rightarrow> int list list \<Rightarrow> 't \<Rightarrow> 'p list list"
  cls_criteria :: "'c \<Rightarrow> int list \<Rightarrow> 'v"
  seq2seq_criteria :: "'p list \<Rightarrow> int list \<Rightarrow> 'v"
  ent_criteria :: "'c \<Rightarrow> 'v"
  make_masks :: "int list list \<Rightarrow> int list list \<Rightarrow> 'm \<times> 't"

text \<open>
  The running metrics \<open>Loss\<close>, \<open>AccuracyRec\<close> and \<open>AccuracyCls\<close> of module \<open>utils\<close>: the
  object a constructor returns and the effect of \<open>update\<close> on it are parameters.
\<close>

record ('v, 'c, 'p, 'l, 'r, 'a) metrics =
  Loss_new :: "'l"
  Loss_update :: "'l \<Rightarrow> 'v \<Rightarrow> 'l"
  AccuracyRec_new :: "'r"
  AccuracyRec_update :: "'r \<Rightarrow> 'p list \<Rightarrow> int list \<Rightarrow> 'r"
  AccuracyCls_new :: "'a"
  AccuracyCls_update :: "'a \<Rightarrow> 'c \<Rightarrow> int list \<Rightarrow> 'a"

text \<open>The five metric objects of one evaluation pass.\<close>

record ('l, 'r, 'a) running =
  cls_running_loss :: "'l"
  rec_running_loss :: "'l"
  ent_running_loss :: "'l"
  rec_acc :: "'r"
  cls_acc :: "'a"

text \<open>\<open>t.contiguous().view(-1, t.size(-1))\<close> and \<open>t.contiguous().view(-1)\<close>: the first two
  dimensions become one.\<close>

definition view_flat :: "'a list list \<Rightarrow> 'a list" where
  "view_flat t = concat t"

text \<open>\<open>preds[:, 1:, :]\<close>: every sample without its first position.\<close>

definition drop_first :: "'a list list \<Rightarrow> 'a list list" where
  "drop_first t = map (drop 1) t"

text \<open>\<open>src[:, :-1]\<close>: every sample without its last position.\<close>

definition drop_last :: "'a list list \<Rightarrow> 'a list list" where
  "drop_last t = map butlast t"

text \<open>
  The body of the loop, on the five metric objects:
  \<^verbatim>\<open>
            src, labels = batch.text, batch.label
            src_mask, trg_mask = make_masks(src, src, device)
            encode_out = model_enc(src, src_mask)
            cls_preds = model_cls(encode_out)
            cls_loss = cls_criteria(cls_preds, labels)
            cls_running_loss.update(cls_loss)
            preds = model_dec(encode_out, labels, src_mask, src, trg_mask)
            rec_loss = seq2seq_criteria(preds.contiguous().view(-1, preds.size(-1)),
                                        src.contiguous().view(-1))
            rec_running_loss.update(rec_loss)
            ent_loss = ent_criteria(cls_preds)
            ent_running_loss.update(ent_loss)
            preds = preds[:, 1:, :]
            preds = preds.contiguous().view(-1, preds.size(-1))
            src = src[:, :-1]
            src = src.contiguous().view(-1)
            rec_acc.update(preds, src)
            cls_acc.update(cls_preds, labels)
  \<close>
\<close>

definition evaluate_batch ::
  "('e, 'c, 'p, 'v, 'm, 't) nets \<Rightarrow> ('v, 'c, 'p, 'l, 'r, 'a) metrics \<Rightarrow> batch \<Rightarrow>
   ('l, 'r, 'a) running \<Rightarrow> ('l, 'r, 'a) running"
where
  "evaluate_batch N U b st =
     (let src = batch_text b; labels = batch_label b;
          (src_mask, trg_mask) = make_masks N src src;
          encode_out = model_enc N src src_mask;
          cls_preds = model_cls N encode_out;
          cls_loss = cls_criteria N cls_preds labels;
          st = st\<lparr>cls_running_loss := Loss_update U (cls_running_loss st) cls_loss\<rparr>;
          preds = model_dec N encode_out labels src_mask src trg_mask;
          rec_loss = seq2seq_criteria N (view_flat preds) (view_flat src);
          st = st\<lparr>rec_running_loss := Loss_update U (rec_running_loss st) rec_loss\<rparr>;
          ent_loss = ent_criteria N cls_preds;
          st = st\<lparr>ent_running_loss := Loss_update U (ent_running_loss st) ent_loss\<rparr>;
          preds = drop_first preds;
          preds = view_flat preds;
          src = drop_last src;
          src = view_flat src;
          st = st\<lparr>rec_acc := AccuracyRec_update U (rec_acc st) preds src\<rparr>
      in st\<lparr>cls_acc := AccuracyCls_update U (cls_acc st) cls_preds labels\<rparr>)"

text \<open>
  The loop from batch number \<open>i\<close> on; \<open>cap\<close> is \<open>params.TEST_MAX_BATCH_SIZE\<close>.
  \<^verbatim>\<open>
        for i, batch in enumerate(data_iter):
            if params.TEST_MAX_BATCH_SIZE and i == params.TEST_MAX_BATCH_SIZE:
                break
  \<close>
\<close>

fun evaluate_loop ::
  "('e, 'c, 'p, 'v, 'm, 't) nets \<Rightarrow> ('v, 'c, 'p, 'l, 'r, 'a) metrics \<Rightarrow> int option \<Rightarrow> nat \<Rightarrow>
   batch list \<Rightarrow> ('l, 'r, 'a) running \<Rightarrow> ('l, 'r, 'a) running"
where
  "evaluate_loop N U cap i [] st = st"
| "evaluate_loop N U cap i (b # bs) st =
     (if truthy cap \<and> int i = the cap then st
      else evaluate_loop N U cap (Suc i) bs (evaluate_batch N U b st))"

text \<open>
  The metric objects when the loop of \<open>evaluate\<close> has ended, which the two logging calls read;
  \<open>evaluate\<close> returns the reconstruction accuracy among them.
\<close>

definition evaluate_metrics ::
  "batch list \<Rightarrow> ('e, 'c, 'p, 'v, 'm, 't) nets \<Rightarrow> ('v, 'c, 'p, 'l, 'r, 'a) metrics \<Rightarrow> int option \<Rightarrow>
   ('l, 'r, 'a) running"
where
  "evaluate_metrics data_iter N U cap =
     evaluate_loop N U cap 0 data_iter
       \<lparr>cls_running_loss = Loss_new U, rec_running_loss = Loss_new U,
        ent_running_loss = Loss_new U, rec_acc = AccuracyRec_new U, cls_acc = AccuracyCls_new U\<rparr>"

definition evaluate ::
  "batch list \<Rightarrow> ('e, 'c, 'p, 'v, 'm, 't) nets \<Rightarrow> ('v, 'c, 'p, 'l, 'r, 'a) metrics \<Rightarrow> int option \<Rightarrow> 'r"
where
  "evaluate data_iter N U cap = rec_acc (evaluate_metrics data_iter N U cap)"

text \<open>The batches that the loop of \<open>evaluate\<close> processes under a cap.\<close>

definition capped :: "int option \<Rightarrow> 'a list \<Rightarrow> 'a list" where
  "capped cap bs = (case cap of None \<Rightarrow> bs | Some n \<Rightarrow> if 0 < n then take (nat n) bs else bs)"

text \<open>
  Metric objects that record the arguments of every \<open>update\<close> call, in order: the number of
  calls is the number of batches processed.
\<close>

definition recording :: "('v, 'c, 'p, 'v list, ('p list \<times> int list) list, ('c \<times> int list) list) metrics" where
  "recording =
     \<lparr>Loss_new = [], Loss_update = (\<lambda>l v. l @ [v]),
      AccuracyRec_new = [], AccuracyRec_update = (\<lambda>r p s. r @ [(p, s)]),
      AccuracyCls_new = [], AccuracyCls_update = (\<lambda>a c l. a @ [(c, l)])\<rparr>"

section \<open>Tensors (transformer_model.py)\<close>

text \<open>
  A PyTorch tensor: its sizes and its elements in row-major order.  A tensor is well formed
  when it has as many elements as the product of its sizes.
\<close>

record 'a tensor =
  shape :: "nat list"
  elems :: "'a list"

definition wf_tensor :: "'a tensor \<Rightarrow> bool" where
  "wf_tensor t = (length (elems t) = prod_list (shape t))"

text \<open>Sequencing of computations that can raise.\<close>

definition raise_bind :: "error + 'a \<Rightarrow> ('a \<Rightarrow> error + 'b) \<Rightarrow> error + 'b" where
  "raise_bind m f = (case m of Inl e \<Rightarrow> Inl e | Inr x \<Rightarrow> f x)"

text \<open>\<open>t.ndimension()\<close>\<close>

definition ndimension :: "'a tensor \<Rightarrow> nat" where
  "ndimension t = length (shape t)"

text \<open>\<open>t.unsqueeze(k)\<close> for \<open>k \<ge> 0\<close>: a dimension of size 1 is inserted at \<open>k\<close>, which must
  not exceed the number of dimensions; the elements stay as they are.\<close>

definition unsqueeze :: "nat \<Rightarrow> 'a tensor \<Rightarrow> error + 'a tensor" where
  "unsqueeze k t =
     (if k \<le> ndimension t
      then Inr (t\<lparr>shape := take k (shape t) @ [1] @ drop k (shape t)\<rparr>)
      else Inl IndexError)"

text \<open>\<open>t.permute(1, 0)\<close>: the transpose of a (well-formed) tensor of two dimensions.\<close>

definition permute_1_0 :: "'a tensor \<Rightarrow> error + 'a tensor" where
  "permute_1_0 t =
     (case shape t of
        [r, c] \<Rightarrow>
          Inr \<lparr>shape = [c, r],
               elems = concat (map (\<lambda>j. map (\<lambda>i. elems t ! (i * c + j)) [0..<r]) [0..<c])\<rparr>
      | _ \<Rightarrow> Inl RuntimeError)"

text \<open>The first \<open>k\<close> consecutive blocks of \<open>n\<close> elements each.\<close>

fun chunk :: "nat \<Rightarrow> nat \<Rightarrow> 'a list \<Rightarrow> 'a list list" where
  "chunk 0 n xs = []"
| "chunk (Suc k) n xs = take n xs # chunk k n (drop n xs)"

text \<open>
  \<open>nn.Embedding\<close>: the weight is a tensor of sizes (number of embeddings, dimension).  An
  index outside the table raises \<open>IndexError\<close>; the result has the sizes of the indices followed
  by the dimension.
\<close>

definition num_embeddings :: "real tensor \<Rightarrow> nat" where
  "num_embeddings w = (case shape w of [n, d] \<Rightarrow> n | _ \<Rightarrow> 0)"

definition embedding_dim :: "real tensor \<Rightarrow> nat" where
  "embedding_dim w = (case shape w of [n, d] \<Rightarrow> d | _ \<Rightarrow> 0)"

definition embedding_row :: "real tensor \<Rightarrow> int \<Rightarrow> error + real list" where
  "embedding_row w i =
     (if 0 \<le> i \<and> i < int (num_embeddings w)
      then Inr (take (embedding_dim w) (drop (nat i * embedding_dim w) (elems w)))
      else Inl IndexError)"

definition Embedding_forward :: "real tensor \<Rightarrow> int tensor \<Rightarrow> error + real tensor" where
  "Embedding_forward w idx =
     raise_bind (collect (map (embedding_row w) (elems idx)))
       (\<lambda>rows. Inr \<lparr>shape = shape idx @ [embedding_dim w], elems = concat rows\<rparr>)"

text \<open>
  \<open>torch.cat((a, b), 1)\<close>.  A tensor of one dimension and size 0 is left out.  The
  dimension 1 must exist in the first tensor that is not left out (\<open>IndexError\<close>); the others
  must have its number of dimensions and its sizes except in dimension 1 (\<open>RuntimeError\<close>).
  For every index of dimension 0 the block of \<open>a\<close> is followed by the block of \<open>b\<close>.
\<close>

definition left_out :: "'a tensor \<Rightarrow> bool" where
  "left_out t = (shape t = [0])"

definition cat_dim1 :: "'a tensor \<Rightarrow> 'a tensor \<Rightarrow> error + 'a tensor" where
  "cat_dim1 a b =
     (if left_out a \<and> left_out b then Inr \<lparr>shape = [0], elems = []\<rparr>
      else if left_out a then (if ndimension b < 2 then Inl IndexError else Inr b)
      else if left_out b then (if ndimension a < 2 then Inl IndexError else Inr a)
      else if ndimension a < 2 then Inl IndexError
      else if ndimension a \<noteq> ndimension b \<or> hd (shape a) \<noteq> hd (shape b)
              \<or> drop 2 (shape a) \<noteq> drop 2 (shape b) then Inl RuntimeError
      else
        (let n = hd (shape a); inner = prod_list (drop 2 (shape a));
             la = shape a ! 1; lb = shape b ! 1
         in Inr \<lparr>shape = n # (la + lb) # drop 2 (shape a),
                 elems = concat (map2 (\<lambda>x y. x @ y) (chunk n (la * inner) (elems a))
                                                    (chunk n (lb * inner) (elems b)))\<rparr>))"

text \<open>
  \<open>t[:, :-1, :]\<close>: three indices need at least three dimensions; the last index of dimension 1
  is dropped (a dimension of size 0 stays empty).
\<close>

definition drop_last_dim1 :: "'a tensor \<Rightarrow> error + 'a tensor" where
  "drop_last_dim1 t =
     (if ndimension t < 3 then Inl IndexError
      else
        (let n = hd (shape t); l = shape t ! 1; inner = prod_list (drop 2 (shape t))
         in Inr \<lparr>shape = n # (l - 1) # drop 2 (shape t),
                 elems = concat (map (take ((l - 1) * inner)) (chunk n (l * inner) (elems t)))\<rparr>))"

section \<open>Generator (transformer_model.py)\<close>

text \<open>\<open>nn.Linear\<close>: weight of sizes (out, in) and bias of size out, applied to the last
  dimension, which must have size in.\<close>

record Linear =
  in_features :: nat
  out_features :: nat
  weight :: "real list list"
  bias :: "real list"

definition dot :: "real list \<Rightarrow> real list \<Rightarrow> real" where
  "dot x w = sum_list (map2 (\<lambda>a b. a * b) x w)"

definition Linear_row :: "Linear \<Rightarrow> real list \<Rightarrow> real list" where
  "Linear_row l x = map2 (\<lambda>w b. dot x w + b) (weight l) (bias l)"

definition Linear_forward :: "Linear \<Rightarrow> real tensor \<Rightarrow> error + real tensor" where
  "Linear_forward l x =
     (if shape x = [] \<or> last (shape x) \<noteq> in_features l then Inl RuntimeError
      else Inr \<lparr>shape = butlast (shape x) @ [out_features l],
                elems = concat (map (Linear_row l)
                          (chunk (prod_list (butlast (shape x))) (in_features l) (elems x)))\<rparr>)"

text \<open>\<open>F.log_softmax(x, dim=-1)\<close> on one row of scores, over the reals.\<close>

definition log_softmax_row :: "real list \<Rightarrow> real list" where
  "log_softmax_row r = map (\<lambda>x. x - ln (sum_list (map exp r))) r"

text \<open>The rows of a tensor along its last dimension (a tensor of no dimension is one row).\<close>

definition rows_last :: "'a tensor \<Rightarrow> 'a list list" where
  "rows_last t =
     (if shape t = [] then [elems t]
      else chunk (prod_list (butlast (shape t))) (last (shape t)) (elems t))"

definition log_softmax_last :: "real tensor \<Rightarrow> real tensor" where
  "log_softmax_last t = t\<lparr>elems := concat (map log_softmax_row (rows_last t))\<rparr>"

text \<open>
  \<^verbatim>\<open>
  class Generator(nn.Module):
      def forward(self, x):
          return F.log_softmax(self.proj(x), dim=-1)
  \<close>
\<close>

definition Generator_forward :: "Linear \<Rightarrow> real tensor \<Rightarrow> error + real tensor" where
  "Generator_forward proj x =
     raise_bind (Linear_forward proj x) (\<lambda>y. Inr (log_softmax_last y))"

section \<open>Style-conditioned decoding (transformer_model.py)\<close>

text \<open>
  The sub-modules of \<open>StyleDecoder\<close>: the decoder stack, the target embedding and the
  generator are parameters, which can raise; the style embedding is an \<open>nn.Embedding\<close>,
  given by its weight.
\<close>

record ('m, 't) StyleDecoder =
  sd_decoder :: "real tensor \<Rightarrow> real tensor \<Rightarrow> 'm \<Rightarrow> 't \<Rightarrow> error + real tensor"
  sd_src_embed :: "int tensor \<Rightarrow> error + real tensor"
  sd_style_embed :: "real tensor"
  sd_generator :: "real tensor \<Rightarrow> error + real tensor"

text \<open>
  \<^verbatim>\<open>
        add_embadding = self.style_embed(style_preds).unsqueeze(1)
        if add_embadding.ndimension() == 1:
            add_embadding = add_embadding.unsqueeze(0).unsqueeze(1)
        elif add_embadding.ndimension() == 2:
            add_embadding = add_embadding.permute(1, 0).unsqueeze(0)
  \<close>
\<close>

definition style_token :: "real tensor \<Rightarrow> int tensor \<Rightarrow> error + real tensor" where
  "style_token style_embed style_preds =
     raise_bind (Embedding_forward style_embed style_preds) (\<lambda>e.
     raise_bind (unsqueeze 1 e) (\<lambda>add_embadding.
       if ndimension add_embadding = 1
       then raise_bind (unsqueeze 0 add_embadding) (unsqueeze 1)
       else if ndimension add_embadding = 2
       then raise_bind (permute_1_0 add_embadding) (unsqueeze 0)
       else Inr add_embadding))"

text \<open>
  \<^verbatim>\<open>
        memory = torch.cat((add_embadding, enc_out), 1)
        memory = memory[:, :-1, :]  # Dump last state
        tgt_modified = torch.cat((add_embadding, self.src_embed(tgt)), 1)
        tgt_modified = tgt_modified[:, :-1, :]
        dec_out = self.decoder(tgt_modified, memory, src_mask, tgt_mask)
        return self.generator(dec_out)
  \<close>
\<close>

definition StyleDecoder_forward ::
  "('m, 't) StyleDecoder \<Rightarrow> real tensor \<Rightarrow> int tensor \<Rightarrow> 'm \<Rightarrow> int tensor \<Rightarrow> 't \<Rightarrow>
   error + real tensor"
where
  "StyleDecoder_forward self enc_out style_preds src_mask tgt tgt_mask =
     raise_bind (style_token (sd_style_embed self) style_preds) (\<lambda>add_embadding.
     raise_bind (cat_dim1 add_embadding enc_out) (\<lambda>memory.
     raise_bind (drop_last_dim1 memory) (\<lambda>memory.
     raise_bind (sd_src_embed self tgt) (\<lambda>embedded.
     raise_bind (cat_dim1 add_embadding embedded) (\<lambda>tgt_modified.
     raise_bind (drop_last_dim1 tgt_modified) (\<lambda>tgt_modified.
     raise_bind (sd_decoder self tgt_modified memory src_mask tgt_mask) (\<lambda>dec_out.
       sd_generator self dec_out)))))))"




text \<open>
  A tensor of sizes (batch, \<open>l\<close>, \<open>d\<close>) from its samples, each a list of \<open>l\<close> vectors of \<open>d\<close>
  numbers, and the test that the samples have these sizes.
\<close>

definition pack3 :: "nat \<Rightarrow> nat \<Rightarrow> 'a list list list \<Rightarrow> 'a tensor" where
  "pack3 l d samples = \<lparr>shape = [length samples, l, d], elems = concat (map concat samples)\<rparr>"

definition rect3 :: "nat \<Rightarrow> nat \<Rightarrow> 'a list list list \<Rightarrow> bool" where
  "rect3 l d samples =
     list_all (\<lambda>s. length s = l \<and> list_all (\<lambda>v. length v = d) s) samples"

section \<open>Scaled dot-product attention (transformer_model.py)\<close>

text \<open>
  \<open>attention\<close> on matrices: \<open>query\<close> of sizes (Lq, d_k), \<open>key\<close> of sizes (Lk, d_k), \<open>value\<close> of
  sizes (Lk, d_v) and an optional mask, a matrix that is broadcast against the scores.  On
  tensors with leading dimensions \<open>torch.matmul\<close>, \<open>masked_fill\<close> and \<open>F.softmax(dim=-1)\<close> act
  on every such slice on its own.  A matrix records its sizes, so that a matrix with no row
  or no column has them; it is well formed when its rows fit them.

  The inputs are finite numbers and the arithmetic is that of the reals, but for the two
  effects of floating point that the results depend on: 0/0 is NaN, written \<open>None\<close>, and the
  exponential of a number below a bound \<open>U \<le> 0\<close> is 0 (for single precision \<open>U\<close> is about
  -104, for double precision about -746).
\<close>

record 'a matrix =
  nrows :: nat
  ncols :: nat
  entries :: "'a list list"

definition wf_matrix :: "'a matrix \<Rightarrow> bool" where
  "wf_matrix m \<longleftrightarrow>
     length (entries m) = nrows m \<and> list_all (\<lambda>r. length r = ncols m) (entries m)"













section \<open>Multi-head attention: sizes (transformer_model.py)\<close>

text \<open>
  The sizes of the tensors that \<open>MultiHeadedAttention\<close> computes: every PyTorch operation of
  \<open>forward\<close> is modelled by what it does to the sizes of its operand, and by the exception it
  raises when the sizes do not fit.  \<open>h\<close> and \<open>d_model\<close> are Python integers.
\<close>

record MultiHeadedAttention =
  mha_d_k :: int
  mha_h :: int
  mha_d_model :: int

text \<open>
  \<^verbatim>\<open>
    def __init__(self, h, d_model, dropout=0.1):
        assert d_model % h == 0
        self.d_k = d_model // h
        self.h = h
        self.linears = clones(nn.Linear(d_model, d_model), 4)
  \<close>
  \<open>d_model % h\<close> raises \<open>ZeroDivisionError\<close> for \<open>h = 0\<close>, and \<open>nn.Linear\<close> refuses a
  negative number of features.
\<close>

definition MultiHeadedAttention_init :: "int \<Rightarrow> int \<Rightarrow> error + MultiHeadedAttention" where
  "MultiHeadedAttention_init h d_model =
     (if h = 0 then Inl ZeroDivisionError
      else if d_model mod h \<noteq> 0 then Inl AssertionError
      else if d_model < 0 then Inl RuntimeError
      else Inr \<lparr>mha_d_k = d_model div h, mha_h = h, mha_d_model = d_model\<rparr>)"

text \<open>\<open>nn.Linear(fin, fout)\<close>: the last dimension must have size \<open>fin\<close> and gets size \<open>fout\<close>.\<close>

definition Linear_shape :: "nat \<Rightarrow> nat \<Rightarrow> nat list \<Rightarrow> error + nat list" where
  "Linear_shape fin fout s =
     (if s = [] \<or> last s \<noteq> fin then Inl RuntimeError else Inr (butlast s @ [fout]))"

text \<open>
  \<open>t.view(*sizes)\<close> on a contiguous tensor: at most one size is -1 and no other is negative;
  the -1 stands for the quotient of the number of elements by the product of the other sizes,
  which must be positive and divide it; with no -1 the product must be the number of elements.
\<close>

definition view_shape :: "nat list \<Rightarrow> int list \<Rightarrow> error + nat list" where
  "view_shape s sizes =
     (let numel = int (prod_list s);
          known = prod_list (filter (\<lambda>z. z \<noteq> - 1) sizes)
      in if list_ex (\<lambda>z. z < - 1) sizes \<or> 1 < length (filter (\<lambda>z. z = - 1) sizes)
         then Inl RuntimeError
         else if - 1 \<in> set sizes
         then (if known = 0 \<or> numel mod known \<noteq> 0 then Inl RuntimeError
               else Inr (map (\<lambda>z. nat (if z = - 1 then numel div known else z)) sizes))
         else if known = numel then Inr (map nat sizes) else Inl RuntimeError)"

text \<open>\<open>t.transpose(i, j)\<close> for dimensions counted from the front.\<close>

definition transpose_shape :: "nat \<Rightarrow> nat \<Rightarrow> nat list \<Rightarrow> error + nat list" where
  "transpose_shape i j s =
     (if i < length s \<and> j < length s then Inr (s[i := s ! j, j := s ! i]) else Inl IndexError)"

text \<open>
  Broadcasting of two lists of sizes, aligned at the last dimension: sizes that meet must be
  equal or one of them 1, and the longer list keeps its leading sizes.
\<close>

fun broadcast_rev :: "nat list \<Rightarrow> nat list \<Rightarrow> error + nat list" where
  "broadcast_rev [] ys = Inr ys"
| "broadcast_rev (x # xs) [] = Inr (x # xs)"
| "broadcast_rev (x # xs) (y # ys) =
     (if x = y \<or> x = 1 \<or> y = 1
      then (case broadcast_rev xs ys of
              Inl e \<Rightarrow> Inl e
            | Inr zs \<Rightarrow> Inr ((if x = 1 then y else x) # zs))
      else Inl RuntimeError)"

definition broadcast_shapes :: "nat list \<Rightarrow> nat list \<Rightarrow> error + nat list" where
  "broadcast_shapes a b =
     (case broadcast_rev (rev a) (rev b) of Inl e \<Rightarrow> Inl e | Inr zs \<Rightarrow> Inr (rev zs))"

text \<open>
  \<open>torch.matmul(a, b)\<close>: both operands need at least one dimension; an operand of one
  dimension is taken as a row (the first) or a column (the second) and that dimension is
  removed from the result; the inner sizes must agree and the leading dimensions are
  broadcast.
\<close>

definition matmul_shape :: "nat list \<Rightarrow> nat list \<Rightarrow> error + nat list" where
  "matmul_shape a b =
     (if a = [] \<or> b = [] then Inl RuntimeError
      else
        (let a' = (if length a = 1 then 1 # a else a);
             b' = (if length b = 1 then b @ [1] else b)
         in if last a' \<noteq> b' ! (length b' - 2) then Inl RuntimeError
            else raise_bind (broadcast_shapes (take (length a' - 2) a') (take (length b' - 2) b'))
                   (\<lambda>batch. Inr (batch @ (if length a = 1 then [] else [a' ! (length a' - 2)])
                                       @ (if length b = 1 then [] else [last b'])))))"

text \<open>
  \<open>scores.masked_fill(mask == 0, -1e9)\<close>, out of place: the scores and the mask are broadcast
  against each other, and the result has the broadcast sizes.
\<close>

definition masked_fill_shape :: "nat list \<Rightarrow> nat list \<Rightarrow> error + nat list" where
  "masked_fill_shape scores msk = broadcast_shapes scores msk"

text \<open>
  The sizes through \<open>attention\<close>: \<open>query.size(-1)\<close> needs a query of at least one dimension
  and \<open>key.transpose(-2, -1)\<close> a key of at least two; then the scores, the optional masking,
  softmax and dropout (which keep the sizes), and the product with the values.
\<close>

definition attention_shape ::
  "nat list \<Rightarrow> nat list \<Rightarrow> nat list \<Rightarrow> nat list option \<Rightarrow> error + nat list"
where
  "attention_shape query key v msk =
     raise_bind (if query = [] \<or> length key < 2 then Inl IndexError
                 else transpose_shape (length key - 2) (length key - 1) key) (\<lambda>key_t.
     raise_bind (matmul_shape query key_t) (\<lambda>scores.
     raise_bind (case msk of None \<Rightarrow> Inr scores | Some ms \<Rightarrow> masked_fill_shape scores ms) (\<lambda>p_attn.
       matmul_shape p_attn v)))"

text \<open>\<open>l(x).view(nbatches, -1, self.h, self.d_k).transpose(1, 2)\<close>\<close>

definition project_shape :: "MultiHeadedAttention \<Rightarrow> nat \<Rightarrow> nat list \<Rightarrow> error + nat list" where
  "project_shape self nbatches x =
     raise_bind (Linear_shape (nat (mha_d_model self)) (nat (mha_d_model self)) x) (\<lambda>y.
     raise_bind (view_shape y [int nbatches, - 1, mha_h self, mha_d_k self])
       (transpose_shape 1 2))"

text \<open>
  \<^verbatim>\<open>
    def forward(self, query, key, value, mask=None):
        if mask is not None:
            mask = mask.unsqueeze(1)
        nbatches = query.size(0)
        query, key, value = \
            [l(x).view(nbatches, -1, self.h, self.d_k).transpose(1, 2)
             for l, x in zip(self.linears, (query, key, value))]
        x, self.attn = attention(query, key, value, mask=mask, dropout=self.dropout)
        x = x.transpose(1, 2).contiguous() \
            .view(nbatches, -1, self.h * self.d_k)
        return self.linears[-1](x)
  \<close>
\<close>

definition MultiHeadedAttention_forward_shape ::
  "MultiHeadedAttention \<Rightarrow> nat list \<Rightarrow> nat list \<Rightarrow> nat list \<Rightarrow> nat list option \<Rightarrow>
   error + nat list"
where
  "MultiHeadedAttention_forward_shape self query key v msk =
     raise_bind (case msk of
                   None \<Rightarrow> Inr None
                 | Some ms \<Rightarrow> if ms = [] then Inl IndexError
                             else Inr (Some (take 1 ms @ [1] @ drop 1 ms))) (\<lambda>msk.
     if query = [] then Inl IndexError
     else
       (let nbatches = hd query
        in raise_bind (project_shape self nbatches query) (\<lambda>query.
           raise_bind (project_shape self nbatches key) (\<lambda>key.
           raise_bind (project_shape self nbatches v) (\<lambda>v.
           raise_bind (attention_shape query key v msk) (\<lambda>x.
           raise_bind (transpose_shape 1 2 x) (\<lambda>x.
           raise_bind (view_shape x [int nbatches, - 1, mha_h self * mha_d_k self]) (\<lambda>x.
             Linear_shape (nat (mha_d_model self)) (nat (mha_d_model self)) x))))))))"

section \<open>Notions used in the statements\<close>

text \<open>
  A batch on which one pass of the loop of \<open>generate_sentences\<close> raises nothing: every score
  vector has a maximum and every id that is looked up is an index of \<open>itos\<close>.
\<close>

definition batch_ok ::
  "numpy \<Rightarrow> (int list list \<Rightarrow> 'm \<Rightarrow> int list \<Rightarrow> real list list list) \<Rightarrow> (int list list \<Rightarrow> 'm) \<Rightarrow>
   vocab \<Rightarrow> batch \<Rightarrow> bool"
where
  "batch_ok np model_gen src_mask_of v b =
     (case argmax_last (model_gen (batch_text b) (src_mask_of (batch_text b))
                          (flip_labels (batch_label b))) of
        Inl e \<Rightarrow> False
      | Inr preds \<Rightarrow>
          (case tensor2text np v preds of
             Inl e \<Rightarrow> False
           | Inr g \<Rightarrow> (case tensor2text np v (batch_text b) of Inl e \<Rightarrow> False | Inr s \<Rightarrow> True)))"

text \<open>The batches that the loop of \<open>generate_sentences\<close> reaches from batch number \<open>i\<close> on.\<close>

definition reach :: "int option \<Rightarrow> nat \<Rightarrow> 'a list \<Rightarrow> 'a list" where
  "reach limit i bs =
     (if truthy limit \<and> int i < the limit then take (nat (the limit - int i)) bs else bs)"

text \<open>The batches that the loop of \<open>evaluate\<close> processes from batch number \<open>i\<close> on.\<close>

definition reach_cap :: "int option \<Rightarrow> nat \<Rightarrow> 'a list \<Rightarrow> 'a list" where
  "reach_cap cap i bs =
     (if truthy cap \<and> int i \<le> the cap then take (nat (the cap - int i)) bs else bs)"

text \<open>The predictions of the decoder on a batch, as the body of the loop of \<open>evaluate\<close>
  computes them.\<close>

definition batch_preds :: "('e, 'c, 'p, 'v, 'm, 't) nets \<Rightarrow> batch \<Rightarrow> 'p list list" where
  "batch_preds N b =
     (let src = batch_text b; (src_mask, trg_mask) = make_masks N src src
      in model_dec N (model_enc N src src_mask) (batch_label b) src_mask src trg_mask)"

text \<open>The embedding vectors of a batch of style labels, one for each sample.\<close>

definition style_vectors :: "real tensor \<Rightarrow> int list \<Rightarrow> real list list" where
  "style_vectors w labels =
     map (\<lambda>i. take (embedding_dim w) (drop (nat i * embedding_dim w) (elems w))) labels"

text \<open>A batch of labels as a tensor of one dimension.\<close>

definition label_batch :: "int list \<Rightarrow> int tensor" where
  "label_batch labels = \<lparr>shape = [length labels], elems = labels\<rparr>"

text \<open>A single label as a tensor of no dimension.\<close>

definition label_scalar :: "int \<Rightarrow> int tensor" where
  "label_scalar i = \<lparr>shape = [], elems = [i]\<rparr>"

text \<open>
  A mask for \<open>MultiHeadedAttention.forward\<close> on a query of sizes (B, L, _): no mask, or a mask
  of three dimensions whose first two sizes are those of the query or 1; and such a mask
  whose last size is the number of keys or 1.
\<close>

definition mask_within :: "nat \<Rightarrow> nat \<Rightarrow> nat list option \<Rightarrow> bool" where
  "mask_within B L msk =
     (case msk of
        None \<Rightarrow> True
      | Some ms \<Rightarrow>
          (case ms of
             [mb, ml, mk] \<Rightarrow> (mb = B \<or> mb = 1) \<and> (ml = L \<or> ml = 1)
           | _ \<Rightarrow> False))"

definition mask_fits :: "nat \<Rightarrow> nat \<Rightarrow> nat \<Rightarrow> nat list option \<Rightarrow> bool" where
  "mask_fits B L Lk msk =
     (case msk of
        None \<Rightarrow> True
      | Some ms \<Rightarrow>
          (case ms of
             [mb, ml, mk] \<Rightarrow> (mb = B \<or> mb = 1) \<and> (ml = L \<or> ml = 1) \<and> (mk = Lk \<or> mk = 1)
           | _ \<Rightarrow> False))"




section \<open>Properties of sentence reconstruction\<close>

lemma where1_Cons:
  "where1 (x # xs) v = (if x = v then [0] else []) @ map Suc (where1 xs v)"
proof -
  have "[0..<length (x # xs)] = 0 # map Suc [0..<length xs]"
    by (simp add: upt_conv_Cons map_Suc_upt del: upt_Suc)
  then show ?thesis
    by (simp add: where1_def filter_map comp_def)
qed

lemma where1_Nil: "where1 [] v = []"
  by (simp add: where1_def)

lemma length_where1: "length (where1 xs v) = length (filter (\<lambda>x. x = v) xs)"
  by (induction xs) (simp_all add: where1_Nil where1_Cons)

lemma take_hd_where1:
  "(if where1 xs v = [] then xs else take (hd (where1 xs v)) xs) = takeWhile (\<lambda>x. x \<noteq> v) xs"
proof (induction xs)
  case Nil
  show ?case by (simp add: where1_Nil)
next
  case (Cons x xs)
  show ?case
  proof (cases "x = v")
    case True
    then show ?thesis by (simp add: where1_Cons)
  next
    case False
    with Cons show ?thesis
      by (cases "where1 xs v") (auto simp add: where1_Cons)
  qed
qed

lemma int_of_array_single:
  "int_of_array np [k] = (if np = SizeOneToScalar then Inr k else Inl TypeError)"
  by (cases np) simp_all

lemma truncate_at_where1:
  "truncate_at np (where1 xs v) xs =
     (if length (filter (\<lambda>x. x = v) xs) = 1 \<and> np = ZeroDimToScalarOnly then Inl TypeError
      else Inr (takeWhile (\<lambda>x. x \<noteq> v) xs))"
proof (cases "where1 xs v")
  case Nil
  with take_hd_where1[of xs v] length_where1[of xs v] show ?thesis
    by (simp add: truncate_at_def)
next
  case (Cons k ks)
  with take_hd_where1[of xs v] have t: "take k xs = takeWhile (\<lambda>x. x \<noteq> v) xs" by simp
  from Cons length_where1[of xs v] have l: "length (filter (\<lambda>x. x = v) xs) = Suc (length ks)"
    by simp
  show ?thesis
  proof (cases ks)
    case Nil
    with Cons t l show ?thesis
      by (cases np) (simp_all add: truncate_at_def)
  next
    case (Cons k' ks')
    with \<open>where1 xs v = k # ks\<close> t l show ?thesis
      by (simp add: truncate_at_def)
  qed
qed

lemma truncate_at_not_ValueError: "truncate_at np end_id sent \<noteq> Inl ValueError"
proof (cases end_id)
  case Nil
  then show ?thesis by (simp add: truncate_at_def)
next
  case (Cons k ks)
  then show ?thesis
    by (cases ks; cases np) (simp_all add: truncate_at_def)
qed

lemma lookup_all_eq:
  "lookup_all d is = (if set is \<subseteq> dom d then Inr (map (\<lambda>i. the (d i)) is) else Inl KeyError)"
  by (induction "is") (auto split: option.splits)

lemma takeWhile_first: "v \<notin> set pre \<Longrightarrow> takeWhile (\<lambda>x. x \<noteq> v) (pre @ v # rest) = pre"
  by (induction pre) auto

lemma filter_none: "v \<notin> set xs \<Longrightarrow> filter (\<lambda>x. x = v) xs = []"
  by (induction xs) auto

lemma once_iff:
  "v \<notin> set pre \<Longrightarrow> length (filter (\<lambda>x. x = v) (pre @ v # rest)) = 1 \<longleftrightarrow> v \<notin> set rest"
proof -
  assume "v \<notin> set pre"
  then have "length (filter (\<lambda>x. x = v) (pre @ v # rest)) = Suc (length (filter (\<lambda>x. x = v) rest))"
    by (simp add: filter_none)
  moreover have "length (filter (\<lambda>x. x = v) rest) = 0 \<longleftrightarrow> v \<notin> set rest"
    by (induction rest) auto
  ultimately show ?thesis by simp
qed

lemma sent2str_flat:
  "sent2str np (NdArray1 xs) d e =
     (if truthy e \<and> length (filter (\<lambda>x. x = the e) xs) = 1 \<and> np = ZeroDimToScalarOnly
      then Inl TypeError
      else
        (let sent = (if truthy e then takeWhile (\<lambda>x. x \<noteq> the e) xs else xs)
         in if set sent \<subseteq> dom d then Inr (join '' '' (map (\<lambda>i. the (d i)) sent))
            else Inl KeyError))"
  by (simp add: truncate_at_where1 lookup_all_eq Let_def)

text \<open>
  C4, as stated, fails: with the end-of-sequence id 0 the test \<open>if eos_id:\<close> is false and
  \<open>sent2str\<close> does not truncate.  On the ids [4, 0, 9, 0] with end-of-sequence id 0 the text
  covers all four ids, not only the id 4 before the first 0, under either NumPy.
\<close>

theorem sent2str_eos_zero_not_truncated:
  "sent2str ZeroDimToScalarOnly (NdArray1 [4, 0, 9, 0]) [4 \<mapsto> ''a'', 0 \<mapsto> ''b'', 9 \<mapsto> ''c''] (Some 0)
     = Inr ''a b c b''
   \<and> sent2str SizeOneToScalar (NdArray1 [4, 0, 9, 0]) [4 \<mapsto> ''a'', 0 \<mapsto> ''b'', 9 \<mapsto> ''c''] (Some 0)
     = Inr ''a b c b''
   \<and> sent2str ZeroDimToScalarOnly (NdArray1 [4, 0, 9, 0]) [4 \<mapsto> ''a'', 0 \<mapsto> ''b'', 9 \<mapsto> ''c''] (Some 0)
     \<noteq> Inr ''a''"
  by simp

text \<open>
  C4, amended: for every nonzero end-of-sequence id \<open>eos\<close> and every flat array of ids
  \<open>pre @ eos # rest\<close> whose first \<open>eos\<close> is the one shown (\<open>eos\<close> is not in \<open>pre\<close>), \<open>sent2str\<close>
  returns the tokens of exactly the ids \<open>pre\<close>, looked up in \<open>id2word\<close> and joined by single
  spaces, when each id of \<open>pre\<close> has an entry in \<open>id2word\<close> and either \<open>eos\<close> occurs again in
  \<open>rest\<close> or NumPy converts an array of one element to an integer; and so does
  \<open>greedy_decode_sent\<close> on a one-sample tensor of scores whose arg-max ids are
  \<open>pre @ eos # rest\<close>, which it returns besides the text.
\<close>

theorem sent2str_truncates_before_first_eos:
  assumes "eos \<noteq> 0" and "eos \<notin> set pre" and "set pre \<subseteq> dom id2word"
    and "eos \<in> set rest \<or> np = SizeOneToScalar"
  shows "sent2str np (NdArray1 (pre @ eos # rest)) id2word (Some eos)
           = Inr (join '' '' (map (\<lambda>i. the (id2word i)) pre))
         \<and> (argmax_last [scores] = Inr [pre @ eos # rest] \<longrightarrow>
              greedy_decode_sent np [scores] id2word (Some eos)
                = Inr (join '' '' (map (\<lambda>i. the (id2word i)) pre), [pre @ eos # rest]))"
proof -
  have "\<not> (length (filter (\<lambda>x. x = eos) (pre @ eos # rest)) = 1 \<and> np = ZeroDimToScalarOnly)"
    using assms(2,4) once_iff[of eos pre rest] by auto
  then have "sent2str np (NdArray1 (pre @ eos # rest)) id2word (Some eos)
           = Inr (join '' '' (map (\<lambda>i. the (id2word i)) pre))"
    using assms(1-3) by (simp add: sent2str_flat takeWhile_first del: sent2str.simps)
  then show ?thesis
    by (simp add: greedy_decode_sent_def del: sent2str.simps)
qed

theorem sent2str_truncates_before_first_eos_witness:
  "sent2str ZeroDimToScalarOnly (NdArray1 [4, 7, 2, 3, 9, 3])
        [4 \<mapsto> ''the'', 7 \<mapsto> ''food'', 2 \<mapsto> ''rocks'', 3 \<mapsto> ''<eos>''] (Some 3)
        = Inr ''the food rocks''
   \<and> argmax_last [[[0, 0, 0, 0, 1], [0, 0, 0, 0, 0, 0, 0, 1], [0, 0, 1], [0, 0, 0, 1],
                    [0, 0, 0, 0, 0, 0, 0, 0, 0, 1], [0, 0, 0, 1]]] = Inr [[4, 7, 2, 3, 9, 3]]
   \<and> greedy_decode_sent ZeroDimToScalarOnly
        [[[0, 0, 0, 0, 1], [0, 0, 0, 0, 0, 0, 0, 1], [0, 0, 1], [0, 0, 0, 1],
          [0, 0, 0, 0, 0, 0, 0, 0, 0, 1], [0, 0, 0, 1]]]
        [4 \<mapsto> ''the'', 7 \<mapsto> ''food'', 2 \<mapsto> ''rocks'', 3 \<mapsto> ''<eos>''] (Some 3)
        = Inr (''the food rocks'', [[4, 7, 2, 3, 9, 3]])
   \<and> sent2str SizeOneToScalar (NdArray1 [4, 7, 2, 3, 9, 9])
        [4 \<mapsto> ''the'', 7 \<mapsto> ''food'', 2 \<mapsto> ''rocks'', 3 \<mapsto> ''<eos>''] (Some 3)
        = Inr ''the food rocks''"
proof -
  have a: "argmax_last [[[0, 0, 0, 0, 1], [0, 0, 0, 0, 0, 0, 0, 1], [0, 0, 1], [0, 0, 0, 1],
                    [0, 0, 0, 0, 0, 0, 0, 0, 0, 1], [0, 0, 0, 1]]] = Inr [[4, 7, 2] @ 3 # [9, 3]]"
    by (simp add: argmax_last_def)
  have "sent2str ZeroDimToScalarOnly (NdArray1 ([4, 7, 2] @ 3 # [9, 3]))
          [4 \<mapsto> ''the'', 7 \<mapsto> ''food'', 2 \<mapsto> ''rocks'', 3 \<mapsto> ''<eos>''] (Some 3)
          = Inr ''the food rocks''
        \<and> greedy_decode_sent ZeroDimToScalarOnly
          [[[0, 0, 0, 0, 1], [0, 0, 0, 0, 0, 0, 0, 1], [0, 0, 1], [0, 0, 0, 1],
            [0, 0, 0, 0, 0, 0, 0, 0, 0, 1], [0, 0, 0, 1]]]
          [4 \<mapsto> ''the'', 7 \<mapsto> ''food'', 2 \<mapsto> ''rocks'', 3 \<mapsto> ''<eos>''] (Some 3)
          = Inr (''the food rocks'', [[4, 7, 2] @ 3 # [9, 3]])"
    using a sent2str_truncates_before_first_eos [where eos=3 and pre="[4, 7, 2]"
        and id2word="[4 \<mapsto> ''the'', 7 \<mapsto> ''food'', 2 \<mapsto> ''rocks'', 3 \<mapsto> ''<eos>'']"
        and rest="[9, 3]" and np=ZeroDimToScalarOnly
        and scores="[[0, 0, 0, 0, 1], [0, 0, 0, 0, 0, 0, 0, 1], [0, 0, 1], [0, 0, 0, 1],
          [0, 0, 0, 0, 0, 0, 0, 0, 0, 1], [0, 0, 0, 1]]"]
    by (simp del: sent2str.simps)
  moreover have "sent2str SizeOneToScalar (NdArray1 ([4, 7, 2] @ 3 # [9, 9]))
          [4 \<mapsto> ''the'', 7 \<mapsto> ''food'', 2 \<mapsto> ''rocks'', 3 \<mapsto> ''<eos>''] (Some 3)
          = Inr ''the food rocks''"
    using sent2str_truncates_before_first_eos [where eos=3 and pre="[4, 7, 2]"
        and id2word="[4 \<mapsto> ''the'', 7 \<mapsto> ''food'', 2 \<mapsto> ''rocks'', 3 \<mapsto> ''<eos>'']"
        and rest="[9, 9]" and np=SizeOneToScalar
        and scores="[[0, 0, 0, 0, 1]]"]
    by (simp del: sent2str.simps)
  ultimately show ?thesis using a by (simp del: sent2str.simps)
qed

text \<open>
  What the amended C4 leaves open: an array with exactly one \<open>eos\<close> under a NumPy that
  converts no array of one dimension.  The branch for one occurrence converts the whole index
  array, \<open>int(end_id)\<close>, where the branch for several converts \<open>end_id[0]\<close>, and raises
  \<open>TypeError\<close>; so does the example [4, 7, 2, eos, 9, 9] of the claim.
\<close>

lemma sent2str_single_eos_refused:
  "eos \<noteq> 0 \<Longrightarrow> eos \<notin> set pre \<Longrightarrow> eos \<notin> set rest \<Longrightarrow>
     sent2str ZeroDimToScalarOnly (NdArray1 (pre @ eos # rest)) id2word (Some eos) = Inl TypeError"
  using once_iff[of eos pre rest] by (simp add: sent2str_flat del: sent2str.simps)

text \<open>
  C5, as stated, fails in both directions.  A Python list of ids is a flat numeric sequence
  and is rejected; a two-dimensional array is not flat and passes the type check: with a row
  in it the error is the \<open>TypeError\<close> of the dictionary lookup, and with no row \<open>sent2str\<close>
  returns the empty text; a flat array with an id that has no entry raises \<open>KeyError\<close>.
\<close>

theorem sent2str_type_check_is_not_flatness:
  "sent2str ZeroDimToScalarOnly (PyList [4, 7, 2]) [4 \<mapsto> ''a'', 7 \<mapsto> ''b'', 2 \<mapsto> ''c''] None
     = Inl ValueError
   \<and> sent2str ZeroDimToScalarOnly (NdArray2 [[4, 7], [2, 2]]) [4 \<mapsto> ''a'', 7 \<mapsto> ''b'', 2 \<mapsto> ''c''] None
     = Inl TypeError
   \<and> sent2str ZeroDimToScalarOnly (NdArray2 []) [4 \<mapsto> ''a'', 7 \<mapsto> ''b'', 2 \<mapsto> ''c''] None = Inr []
   \<and> sent2str ZeroDimToScalarOnly (NdArray1 [4, 5]) [4 \<mapsto> ''a'', 7 \<mapsto> ''b'', 2 \<mapsto> ''c''] None
     = Inl KeyError"
  by simp

text \<open>
  C5, amended: \<open>sent2str\<close> raises the \<open>ValueError\<close> of its type check if and only if its input
  is not a NumPy array; the check looks at the type only, neither at the number of dimensions
  nor at the elements, and it comes before the truncation and the lookup.
\<close>

theorem sent2str_rejects_exactly_non_arrays:
  "sent2str np x id2word eos_id = Inl ValueError \<longleftrightarrow> \<not> is_ndarray x"
proof (cases x)
  case (NdArray1 xs)
  then show ?thesis by (simp add: sent2str_flat Let_def del: sent2str.simps)
next
  case (NdArray2 rows)
  then show ?thesis
    using truncate_at_not_ValueError[of np "where2 rows (the eos_id)" rows]
    by (auto split: sum.splits if_splits)
qed simp_all

theorem sent2str_rejects_exactly_non_arrays_witness:
  "sent2str ZeroDimToScalarOnly (PyList [4, 7]) [4 \<mapsto> ''a'', 7 \<mapsto> ''b''] (Some 7) = Inl ValueError
   \<and> \<not> is_ndarray (PyList [4, 7])
   \<and> sent2str ZeroDimToScalarOnly (NdArray1 [4, 7]) [4 \<mapsto> ''a'', 7 \<mapsto> ''b''] (Some 7) \<noteq> Inl ValueError
   \<and> is_ndarray (NdArray1 [4, 7])"
  using sent2str_rejects_exactly_non_arrays [of ZeroDimToScalarOnly "PyList [4, 7]"
      "[4 \<mapsto> ''a'', 7 \<mapsto> ''b'']" "Some 7"]
    sent2str_rejects_exactly_non_arrays [of ZeroDimToScalarOnly "NdArray1 [4, 7]"
      "[4 \<mapsto> ''a'', 7 \<mapsto> ''b'']" "Some 7"]
  by simp

text \<open>
  C10: when \<open>eos_id\<close> is \<open>None\<close> or 0, \<open>sent2str\<close> on a flat array of ids joins the tokens of
  every id of the array, with no truncation, also when the array holds the value of \<open>eos_id\<close>
  (the lookup of an id with no entry raises \<open>KeyError\<close>).
\<close>

theorem sent2str_falsy_eos_no_truncation:
  assumes "eos_id = None \<or> eos_id = Some 0"
  shows "sent2str np (NdArray1 xs) id2word eos_id =
           (if set xs \<subseteq> dom id2word then Inr (join '' '' (map (\<lambda>i. the (id2word i)) xs))
            else Inl KeyError)"
  using assms by (auto simp add: sent2str_flat simp del: sent2str.simps)

theorem sent2str_falsy_eos_no_truncation_witness:
  "(Some (0::int) = None \<or> Some (0::int) = Some 0)
   \<and> sent2str ZeroDimToScalarOnly (NdArray1 [4, 0, 9, 0]) [4 \<mapsto> ''a'', 0 \<mapsto> ''b'', 9 \<mapsto> ''c''] (Some 0)
       = Inr ''a b c b''"
  using sent2str_falsy_eos_no_truncation [of "Some 0" ZeroDimToScalarOnly "[4, 0, 9, 0]"
      "[4 \<mapsto> ''a'', 0 \<mapsto> ''b'', 9 \<mapsto> ''c'']"]
  by simp

section \<open>Properties of batch generation\<close>

lemma reach_0: "reach limit 0 bs = limited limit bs"
  by (cases limit) (auto simp: reach_def limited_def)

lemma reach_Nil: "reach limit i [] = []"
  by (simp add: reach_def)

lemma reach_break:
  "truthy limit \<Longrightarrow> int i = the limit - 1 \<Longrightarrow> reach limit i (b # bs) = [b]"
  by (simp add: reach_def)

lemma reach_continue:
  "\<not> (truthy limit \<and> int i = the limit - 1) \<Longrightarrow>
     reach limit i (b # bs) = b # reach limit (Suc i) bs"
proof (cases "truthy limit \<and> int i < the limit")
  case True
  assume n: "\<not> (truthy limit \<and> int i = the limit - 1)"
  from True n have lt: "int (Suc i) < the limit" by auto
  then have "nat (the limit - int i) = Suc (nat (the limit - int (Suc i)))" by auto
  with True lt show ?thesis by (simp add: reach_def)
next
  case False
  then show ?thesis by (auto simp: reach_def)
qed

lemma generate_loop_labels:
  "generate_loop np mg mk v limit i bs (g, o', l) = Inr (g', o'', l') \<Longrightarrow>
     l' = l @ concat (map batch_label (reach limit i bs))"
proof (induction bs arbitrary: i g o' l)
  case Nil
  then show ?case by (simp add: reach_Nil)
next
  case (Cons b bs)
  show ?case
  proof (cases "truthy limit \<and> int i = the limit - 1")
    case True
    with Cons.prems show ?thesis
      by (auto simp: Let_def reach_break split: sum.splits)
  next
    case False
    from Cons.prems False obtain g1 o1 where
      "generate_loop np mg mk v limit (Suc i) bs (g1, o1, l @ batch_label b) = Inr (g', o'', l')"
      by (auto simp: Let_def split: sum.splits)
    from Cons.IH[OF this] False show ?thesis
      by (simp add: reach_continue)
  qed
qed

lemma generate_loop_returns:
  "\<forall>b \<in> set (reach limit i bs). batch_ok np mg mk v b \<Longrightarrow>
     \<exists>r. generate_loop np mg mk v limit i bs (g, o', l) = Inr r"
proof (induction bs arbitrary: i g o' l)
  case Nil
  then show ?case by simp
next
  case (Cons b bs)
  show ?case
  proof (cases "truthy limit \<and> int i = the limit - 1")
    case True
    with Cons.prems have "batch_ok np mg mk v b" by (simp add: reach_break)
    with True show ?thesis
      by (auto simp: Let_def batch_ok_def split: sum.splits)
  next
    case False
    with Cons.prems have ok: "batch_ok np mg mk v b"
      and rest: "\<forall>b \<in> set (reach limit (Suc i) bs). batch_ok np mg mk v b"
      by (simp_all add: reach_continue)
    from ok obtain p g1 s1 where
      p: "argmax_last (mg (batch_text b) (mk (batch_text b)) (flip_labels (batch_label b))) = Inr p"
      and g1: "tensor2text np v p = Inr g1" and s1: "tensor2text np v (batch_text b) = Inr s1"
      by (auto simp: batch_ok_def split: sum.splits)
    from Cons.IH[OF rest] obtain r where
      "generate_loop np mg mk v limit (Suc i) bs (g @ g1, o' @ s1, l @ batch_label b) = Inr r"
      by blast
    moreover obtain a1 a2 a3 where "r = (a1, a2, a3)" by (cases r) auto
    ultimately show ?thesis using p g1 s1 False
      by (simp add: Let_def)
  qed
qed

lemma flip_flip: "\<forall>x \<in> set labels. x = 0 \<or> x = 1 \<Longrightarrow> flip_labels (flip_labels labels) = labels"
  by (induction labels) (auto simp: flip_labels_def tensor_long_def tensor_not_def tensor_bool_def)

text \<open>
  C8: the label flip \<open>(~labels.bool()).long()\<close> applied twice returns every batch of labels
  from {0, 1} unchanged; and the labels that \<open>generate_sentences\<close> returns are the labels of
  the batches it has processed (all of them, or the first \<open>limit\<close> under a positive limit),
  concatenated in order and unchanged by the flip: both whenever it returns, and it returns
  whenever no processed batch raises in the arg-max or in \<open>tensor2text\<close> (under either
  NumPy).
\<close>

theorem flip_involution_and_original_labels_kept:
  "((\<forall>x \<in> set labels. x = 0 \<or> x = 1) \<longrightarrow> flip_labels (flip_labels labels) = labels)
   \<and> (generate_sentences np mg mk data v limit = Inr (gen, org, labs) \<longrightarrow>
        labs = concat (map batch_label (limited limit data)))
   \<and> ((\<forall>b \<in> set (limited limit data). batch_ok np mg mk v b) \<longrightarrow>
        (\<exists>gen org. generate_sentences np mg mk data v limit
                      = Inr (gen, org, concat (map batch_label (limited limit data)))))"
proof (intro conjI impI)
  assume "\<forall>x \<in> set labels. x = 0 \<or> x = 1"
  then show "flip_labels (flip_labels labels) = labels" by (rule flip_flip)
next
  assume "generate_sentences np mg mk data v limit = Inr (gen, org, labs)"
  then show "labs = concat (map batch_label (limited limit data))"
    using generate_loop_labels[of np mg mk v limit 0 data "[]" "[]" "[]" gen org labs]
    by (simp add: generate_sentences_def reach_0)
next
  assume "\<forall>b \<in> set (limited limit data). batch_ok np mg mk v b"
  then obtain r where r: "generate_loop np mg mk v limit 0 data ([], [], []) = Inr r"
    using generate_loop_returns[of limit 0 data np mg mk v "[]" "[]" "[]"] by (auto simp: reach_0)
  obtain g' o'' l' where "r = (g', o'', l')" by (cases r) auto
  with r generate_loop_labels[of np mg mk v limit 0 data "[]" "[]" "[]" g' o'' l']
  show "\<exists>gen org. generate_sentences np mg mk data v limit
                      = Inr (gen, org, concat (map batch_label (limited limit data)))"
    by (simp add: generate_sentences_def reach_0)
qed

theorem flip_involution_and_original_labels_kept_witness:
  "set [0, 1, 1::int] \<subseteq> {0, 1}
   \<and> flip_labels [0, 1, 1] = [1, 0, 0]
   \<and> flip_labels (flip_labels [0, 1, 1]) = [0, 1, 1]
   \<and> batch_ok ZeroDimToScalarOnly
        (\<lambda>src (m::unit) neg. map2 (\<lambda>s n. map (\<lambda>t. if n = 1 then [0, 1, 0] else [0, 0, 1]) s) src neg)
        (\<lambda>src. ())
        \<lparr>itos = [''<unk>'', ''a'', ''<eos>''], stoi = [''<unk>'' \<mapsto> 0, ''a'' \<mapsto> 1, ''<eos>'' \<mapsto> 2]\<rparr>
        \<lparr>batch_text = [[1, 2, 2], [1, 1, 1]], batch_label = [0, 1]\<rparr>
   \<and> generate_sentences ZeroDimToScalarOnly
        (\<lambda>src (m::unit) neg. map2 (\<lambda>s n. map (\<lambda>t. if n = 1 then [0, 1, 0] else [0, 0, 1]) s) src neg)
        (\<lambda>src. ())
        [\<lparr>batch_text = [[1, 2, 2], [1, 1, 1]], batch_label = [0, 1]\<rparr>,
         \<lparr>batch_text = [[2, 2, 1]], batch_label = [1]\<rparr>]
        \<lparr>itos = [''<unk>'', ''a'', ''<eos>''], stoi = [''<unk>'' \<mapsto> 0, ''a'' \<mapsto> 1, ''<eos>'' \<mapsto> 2]\<rparr>
        (Some 1)
       = Inr ([''a a a'', []], [''a'', ''a a a''], [0, 1])
   \<and> concat (map batch_label (limited (Some 1)
          [\<lparr>batch_text = [[1, 2, 2], [1, 1, 1]], batch_label = [0, 1]\<rparr>,
           \<lparr>batch_text = [[2, 2, 1]], batch_label = [1]\<rparr>])) = [0, 1]"
proof -
  let ?G = "\<lambda>src (m::unit) neg.
              map2 (\<lambda>s n. map (\<lambda>t::int. if n = (1::int) then [0, 1, 0::real] else [0, 0, 1]) s) src neg"
  let ?D = "[\<lparr>batch_text = [[1, 2, 2], [1, 1, 1]], batch_label = [0, 1]\<rparr>,
             \<lparr>batch_text = [[2, 2, 1]], batch_label = [1]\<rparr>]"
  let ?V = "\<lparr>itos = [''<unk>'', ''a'', ''<eos>''],
             stoi = [''<unk>'' \<mapsto> 0, ''a'' \<mapsto> 1, ''<eos>'' \<mapsto> 2]\<rparr>"
  have g: "generate_sentences ZeroDimToScalarOnly ?G (\<lambda>src. ()) ?D ?V (Some 1)
             = Inr ([''a a a'', []], [''a'', ''a a a''], [0, 1])"
    by (simp add: generate_sentences_def Let_def flip_labels_def tensor_long_def tensor_not_def
          tensor_bool_def argmax_last_def tensor2text_def sample2text_def where1_def
          truncate_at_def list_index_def)
  have ok: "\<forall>b \<in> set (limited (Some 1) ?D). batch_ok ZeroDimToScalarOnly ?G (\<lambda>src. ()) ?V b"
    by (simp add: limited_def batch_ok_def flip_labels_def tensor_long_def tensor_not_def
          tensor_bool_def argmax_last_def tensor2text_def sample2text_def where1_def
          truncate_at_def list_index_def)
  have f: "flip_labels [0, 1, 1] = [1, 0, 0]"
    by (simp add: flip_labels_def tensor_long_def tensor_not_def tensor_bool_def)
  show ?thesis
    using flip_involution_and_original_labels_kept [where labels="[0, 1, 1]"
        and np=ZeroDimToScalarOnly and mg="?G" and mk="\<lambda>src. ()" and data="?D" and v="?V"
        and limit="Some 1" and gen="[''a a a'', []]" and org="[''a'', ''a a a'']" and labs="[0, 1]"] g ok f
    by (simp add: limited_def)
qed

section \<open>Properties of the evaluation loop\<close>

lemma reach_cap_0: "reach_cap cap 0 bs = capped cap bs"
  by (cases cap) (auto simp: reach_cap_def capped_def)

lemma reach_cap_stop: "truthy cap \<Longrightarrow> int i = the cap \<Longrightarrow> reach_cap cap i bs = []"
  by (simp add: reach_cap_def)

lemma reach_cap_step:
  "\<not> (truthy cap \<and> int i = the cap) \<Longrightarrow> reach_cap cap i (b # bs) = b # reach_cap cap (Suc i) bs"
proof (cases "truthy cap \<and> int i \<le> the cap")
  case True
  assume n: "\<not> (truthy cap \<and> int i = the cap)"
  from True n have le: "int (Suc i) \<le> the cap" by auto
  then have "nat (the cap - int i) = Suc (nat (the cap - int (Suc i)))" by auto
  with True le show ?thesis by (simp add: reach_cap_def)
next
  case False
  then show ?thesis by (auto simp: reach_cap_def)
qed

lemma evaluate_loop_foldl:
  "evaluate_loop N U cap i bs st = foldl (\<lambda>s b. evaluate_batch N U b s) st (reach_cap cap i bs)"
proof (induction bs arbitrary: i st)
  case Nil
  show ?case by (simp add: reach_cap_def)
next
  case (Cons b bs)
  show ?case
  proof (cases "truthy cap \<and> int i = the cap")
    case True
    then show ?thesis by (simp add: reach_cap_stop)
  next
    case False
    then have "evaluate_loop N U cap i (b # bs) st
                 = evaluate_loop N U cap (Suc i) bs (evaluate_batch N U b st)"
      by auto
    with False show ?thesis by (simp add: Cons.IH reach_cap_step del: evaluate_loop.simps)
  qed
qed

lemma rec_loss_batch:
  "rec_running_loss (evaluate_batch N U b st) =
     Loss_update U (rec_running_loss st)
       (seq2seq_criteria N (view_flat (batch_preds N b)) (view_flat (batch_text b)))"
  by (simp add: evaluate_batch_def batch_preds_def Let_def split: prod.splits)

lemma rec_acc_batch:
  "rec_acc (evaluate_batch N U b st) =
     AccuracyRec_update U (rec_acc st)
       (view_flat (drop_first (batch_preds N b))) (view_flat (drop_last (batch_text b)))"
  by (simp add: evaluate_batch_def batch_preds_def Let_def split: prod.splits)

lemma rec_loss_foldl:
  "rec_running_loss (foldl (\<lambda>s b. evaluate_batch N U b s) st bs) =
     foldl (Loss_update U) (rec_running_loss st)
       (map (\<lambda>b. seq2seq_criteria N (view_flat (batch_preds N b)) (view_flat (batch_text b))) bs)"
  by (induction bs arbitrary: st) (simp_all add: rec_loss_batch)

lemma rec_acc_foldl:
  "rec_acc (foldl (\<lambda>s b. evaluate_batch N U b s) st bs) =
     foldl (\<lambda>r b. AccuracyRec_update U r (view_flat (drop_first (batch_preds N b)))
                     (view_flat (drop_last (batch_text b))))
       (rec_acc st) bs"
  by (induction bs arbitrary: st) (simp_all add: rec_acc_batch)

lemma zip_same: "length p = length s \<Longrightarrow> zip p s = map (\<lambda>t. (p ! t, s ! t)) [0..<length s]"
  by (auto intro!: nth_equalityI)

lemma zip_shift:
  "length p = length s \<Longrightarrow>
     zip (drop (Suc 0) p) (butlast s) = map (\<lambda>t. (p ! Suc t, s ! t)) [0..<length s - Suc 0]"
  by (auto intro!: nth_equalityI simp: nth_butlast)

lemma length_foldl_snoc: "length (foldl (\<lambda>l v. l @ [v]) l xs) = length l + length xs"
  by (induction xs arbitrary: l) simp_all

lemma zip_concat:
  "list_all2 (\<lambda>p s. length p = length s) ps ss \<Longrightarrow>
     zip (concat ps) (concat ss) = concat (map2 zip ps ss)"
  by (induction rule: list_all2_induct) auto

lemma zip_pairs_unshifted:
  "list_all2 (\<lambda>p s. length p = length s) preds src \<Longrightarrow>
     zip (view_flat preds) (view_flat src)
       = concat (map2 (\<lambda>p s. map (\<lambda>t. (p ! t, s ! t)) [0..<length s]) preds src)"
  unfolding view_flat_def
  by (induction rule: list_all2_induct) (simp_all add: zip_same)

lemma zip_pairs_shifted:
  "list_all2 (\<lambda>p s. length p = length s) preds src \<Longrightarrow>
     zip (view_flat (drop_first preds)) (view_flat (drop_last src))
       = concat (map2 (\<lambda>p s. map (\<lambda>t. (p ! Suc t, s ! t)) [0..<length s - 1]) preds src)"
  unfolding view_flat_def drop_first_def drop_last_def
  by (induction rule: list_all2_induct) (simp_all add: zip_shift)

text \<open>
  C2: over the batches that the loop processes, the reconstruction loss object is updated,
  batch after batch, with the criterion of the whole flattened prediction tensor against the
  whole flattened source (nothing dropped), and the reconstruction accuracy object with the
  predictions without their first position against the source without its last token.
  When every sample has as many predictions as tokens, the loss therefore pairs the prediction
  at position \<open>t\<close> with the token at \<open>t\<close>, and the accuracy pairs the prediction at \<open>t + 1\<close> with
  the token at \<open>t\<close>.
\<close>

theorem rec_loss_unshifted_rec_acc_shifted:
  "rec_running_loss (evaluate_metrics data N U cap)
     = foldl (Loss_update U) (Loss_new U)
         (map (\<lambda>b. seq2seq_criteria N (concat (batch_preds N b)) (concat (batch_text b)))
            (capped cap data))
   \<and> rec_acc (evaluate_metrics data N U cap)
     = foldl (\<lambda>r b. AccuracyRec_update U r (concat (map (drop 1) (batch_preds N b)))
                      (concat (map butlast (batch_text b))))
         (AccuracyRec_new U) (capped cap data)
   \<and> (list_all2 (\<lambda>p s. length p = length s) preds src \<longrightarrow>
        zip (view_flat preds) (view_flat src)
          = concat (map2 (\<lambda>p s. map (\<lambda>t. (p ! t, s ! t)) [0..<length s]) preds src)
        \<and> zip (view_flat (drop_first preds)) (view_flat (drop_last src))
          = concat (map2 (\<lambda>p s. map (\<lambda>t. (p ! Suc t, s ! t)) [0..<length s - 1]) preds src))"
proof (intro conjI impI)
  show "rec_running_loss (evaluate_metrics data N U cap)
     = foldl (Loss_update U) (Loss_new U)
         (map (\<lambda>b. seq2seq_criteria N (concat (batch_preds N b)) (concat (batch_text b)))
            (capped cap data))"
    by (simp add: evaluate_metrics_def evaluate_loop_foldl rec_loss_foldl reach_cap_0 view_flat_def)
  show "rec_acc (evaluate_metrics data N U cap)
     = foldl (\<lambda>r b. AccuracyRec_update U r (concat (map (drop 1) (batch_preds N b)))
                      (concat (map butlast (batch_text b))))
         (AccuracyRec_new U) (capped cap data)"
    by (simp add: evaluate_metrics_def evaluate_loop_foldl rec_acc_foldl reach_cap_0 view_flat_def
          drop_first_def drop_last_def)
next
  assume "list_all2 (\<lambda>p s. length p = length s) preds src"
  then show "zip (view_flat preds) (view_flat src)
          = concat (map2 (\<lambda>p s. map (\<lambda>t. (p ! t, s ! t)) [0..<length s]) preds src)"
    by (rule zip_pairs_unshifted)
next
  assume "list_all2 (\<lambda>p s. length p = length s) preds src"
  then show "zip (view_flat (drop_first preds)) (view_flat (drop_last src))
          = concat (map2 (\<lambda>p s. map (\<lambda>t. (p ! Suc t, s ! t)) [0..<length s - 1]) preds src)"
    by (rule zip_pairs_shifted)
qed

theorem rec_loss_unshifted_rec_acc_shifted_witness:
  "list_all2 (\<lambda>p s. length p = length s) [[''p0'', ''p1'', ''p2''], [''q0'', ''q1'', ''q2'']]
      [[5, 6, 7], [8, 9, 10::int]]
   \<and> zip (view_flat [[''p0'', ''p1'', ''p2''], [''q0'', ''q1'', ''q2'']])
         (view_flat [[5, 6, 7], [8, 9, 10::int]])
       = [(''p0'', 5), (''p1'', 6), (''p2'', 7), (''q0'', 8), (''q1'', 9), (''q2'', 10)]
   \<and> zip (view_flat (drop_first [[''p0'', ''p1'', ''p2''], [''q0'', ''q1'', ''q2'']]))
         (view_flat (drop_last [[5, 6, 7], [8, 9, 10::int]]))
       = [(''p1'', 5), (''p2'', 6), (''q1'', 8), (''q2'', 9)]
   \<and> rec_running_loss
        (evaluate_metrics [\<lparr>batch_text = [[5, 6, 7], [8, 9, 10]], batch_label = [0, 1]\<rparr>]
          \<lparr>model_enc = (\<lambda>src m. ()), model_cls = (\<lambda>e. ()),
           model_dec = (\<lambda>e l m src t. map (map (\<lambda>x. x + 100)) src),
           cls_criteria = (\<lambda>c l. ([], [])), seq2seq_criteria = (\<lambda>p s. (p, s)),
           ent_criteria = (\<lambda>c. ([], [])), make_masks = (\<lambda>a b. ((), ()))\<rparr>
          recording None)
       = [([105, 106, 107, 108, 109, 110], [5, 6, 7, 8, 9, 10])]
   \<and> rec_acc
        (evaluate_metrics [\<lparr>batch_text = [[5, 6, 7], [8, 9, 10]], batch_label = [0, 1]\<rparr>]
          \<lparr>model_enc = (\<lambda>src m. ()), model_cls = (\<lambda>e. ()),
           model_dec = (\<lambda>e l m src t. map (map (\<lambda>x. x + 100)) src),
           cls_criteria = (\<lambda>c l. ([], [])), seq2seq_criteria = (\<lambda>p s. (p, s)),
           ent_criteria = (\<lambda>c. ([], [])), make_masks = (\<lambda>a b. ((), ()))\<rparr>
          recording None)
       = [([106, 107, 109, 110], [5, 6, 8, 9])]"
  using rec_loss_unshifted_rec_acc_shifted [of
      "[\<lparr>batch_text = [[5, 6, 7], [8, 9, 10]], batch_label = [0, 1]\<rparr>]"
      "\<lparr>model_enc = (\<lambda>src m. ()), model_cls = (\<lambda>e. ()),
        model_dec = (\<lambda>e l m src t. map (map (\<lambda>x. x + 100)) src),
        cls_criteria = (\<lambda>c l. ([], [])), seq2seq_criteria = (\<lambda>p s. (p, s)),
        ent_criteria = (\<lambda>c. ([], [])), make_masks = (\<lambda>a b. ((), ()))\<rparr>"
      recording None
      "[[''p0'', ''p1'', ''p2''], [''q0'', ''q1'', ''q2'']]" "[[5, 6, 7], [8, 9, 10]]"]
  by (simp add: capped_def batch_preds_def recording_def view_flat_def drop_first_def drop_last_def)

text \<open>
  C3, as stated, fails: a cap of 0 is falsy in \<open>if params.TEST_MAX_BATCH_SIZE and ...\<close>, so the
  loop never breaks and processes the whole stream.  With cap 0 and a stream of two batches
  every metric object is updated twice.
\<close>

theorem cap_zero_processes_every_batch:
  "evaluate_metrics
     [\<lparr>batch_text = [[5, 6]], batch_label = [1]\<rparr>, \<lparr>batch_text = [[7, 8]], batch_label = [0]\<rparr>]
     \<lparr>model_enc = (\<lambda>src m. ()), model_cls = (\<lambda>e. ()), model_dec = (\<lambda>e l m src t. src),
      cls_criteria = (\<lambda>c l. 1), seq2seq_criteria = (\<lambda>p s. 2), ent_criteria = (\<lambda>c. 3::int),
      make_masks = (\<lambda>a b. ((), ()))\<rparr>
     recording (Some 0)
   = \<lparr>cls_running_loss = [1, 1], rec_running_loss = [2, 2], ent_running_loss = [3, 3],
      rec_acc = [([6], [5]), ([8], [7])], cls_acc = [((), [1]), ((), [0])]\<rparr>"
  by (simp add: evaluate_metrics_def evaluate_batch_def recording_def view_flat_def
        drop_first_def drop_last_def)

text \<open>
  C3, amended: a cap of 0 (like \<open>None\<close> or a negative cap) switches the cap off and \<open>evaluate\<close>
  processes every batch of the stream; a cap \<open>n > 0\<close> makes it process the first \<open>n\<close> batches
  (all of them when there are fewer).  The metric objects at the end are the objects as
  constructed, updated once for each processed batch in order; so no batch is processed, and
  every metric object is still as constructed, exactly when the stream is empty.
\<close>

theorem evaluate_processes_capped_batches:
  "evaluate_metrics data N U cap
     = foldl (\<lambda>st b. evaluate_batch N U b st)
         \<lparr>cls_running_loss = Loss_new U, rec_running_loss = Loss_new U,
          ent_running_loss = Loss_new U, rec_acc = AccuracyRec_new U, cls_acc = AccuracyCls_new U\<rparr>
         (capped cap data)
   \<and> capped (Some 0) data = data
   \<and> capped None data = data
   \<and> (n < 0 \<longrightarrow> capped (Some n) data = data)
   \<and> (0 < n \<longrightarrow> capped (Some n) data = take (nat n) data)
   \<and> length (rec_running_loss (evaluate_metrics data N recording cap)) = length (capped cap data)
   \<and> (capped cap data = [] \<longleftrightarrow> data = [])"
proof -
  have "length (rec_running_loss (evaluate_metrics data N recording cap)) = length (capped cap data)"
    by (simp add: evaluate_metrics_def evaluate_loop_foldl rec_loss_foldl reach_cap_0 recording_def
          length_foldl_snoc)
  moreover have "capped cap data = [] \<longleftrightarrow> data = []"
    by (cases cap) (auto simp: capped_def)
  ultimately show ?thesis
    by (simp add: evaluate_metrics_def evaluate_loop_foldl reach_cap_0 capped_def)
qed

theorem evaluate_processes_capped_batches_witness:
  "(0::int) < 1
   \<and> capped (Some 1) [\<lparr>batch_text = [[5, 6]], batch_label = [1]\<rparr>, \<lparr>batch_text = [[7, 8]], batch_label = [0]\<rparr>]
       = [\<lparr>batch_text = [[5, 6]], batch_label = [1]\<rparr>]
   \<and> evaluate_metrics
        [\<lparr>batch_text = [[5, 6]], batch_label = [1]\<rparr>, \<lparr>batch_text = [[7, 8]], batch_label = [0]\<rparr>]
        \<lparr>model_enc = (\<lambda>src m. ()), model_cls = (\<lambda>e. ()), model_dec = (\<lambda>e l m src t. src),
         cls_criteria = (\<lambda>c l. 1), seq2seq_criteria = (\<lambda>p s. 2), ent_criteria = (\<lambda>c. 3::int),
         make_masks = (\<lambda>a b. ((), ()))\<rparr>
        recording (Some 1)
       = \<lparr>cls_running_loss = [1], rec_running_loss = [2], ent_running_loss = [3],
          rec_acc = [([6], [5])], cls_acc = [((), [1])]\<rparr>
   \<and> (-1::int) < 0
   \<and> capped (Some (-1)) [\<lparr>batch_text = [[5, 6]], batch_label = [1]\<rparr>, \<lparr>batch_text = [[7, 8]], batch_label = [0]\<rparr>]
       = [\<lparr>batch_text = [[5, 6]], batch_label = [1]\<rparr>, \<lparr>batch_text = [[7, 8]], batch_label = [0]\<rparr>]"
  using evaluate_processes_capped_batches [of
      "[\<lparr>batch_text = [[5, 6]], batch_label = [1]\<rparr>, \<lparr>batch_text = [[7, 8]], batch_label = [0]\<rparr>]"
      "\<lparr>model_enc = (\<lambda>src m. ()), model_cls = (\<lambda>e. ()), model_dec = (\<lambda>e l m src t. src),
        cls_criteria = (\<lambda>c l. 1), seq2seq_criteria = (\<lambda>p s. 2), ent_criteria = (\<lambda>c. 3::int),
        make_masks = (\<lambda>a b. ((), ()))\<rparr>" recording "Some 1" 1]
    evaluate_processes_capped_batches [of
      "[\<lparr>batch_text = [[5, 6]], batch_label = [1]\<rparr>, \<lparr>batch_text = [[7, 8]], batch_label = [0]\<rparr>]"
      "\<lparr>model_enc = (\<lambda>src m. ()), model_cls = (\<lambda>e. ()), model_dec = (\<lambda>e l m src t. src),
        cls_criteria = (\<lambda>c l. 1), seq2seq_criteria = (\<lambda>p s. 2), ent_criteria = (\<lambda>c. 3::int),
        make_masks = (\<lambda>a b. ((), ()))\<rparr>" recording "Some 1" "-1"]
  by (simp add: evaluate_batch_def recording_def view_flat_def drop_first_def drop_last_def)

section \<open>Properties of style-conditioned decoding\<close>

lemma raise_bind_Inr [simp]: "raise_bind (Inr x) f = f x"
  by (simp add: raise_bind_def)

lemma raise_bind_Inl [simp]: "raise_bind (Inl e) f = Inl e"
  by (simp add: raise_bind_def)

lemma chunk_concat:
  "\<forall>x \<in> set xs. length x = n \<Longrightarrow> chunk (length xs) n (concat xs @ rest) = xs"
  by (induction xs) simp_all

lemma chunk_concat0:
  "\<forall>x \<in> set xs. length x = n \<Longrightarrow> k = length xs \<Longrightarrow> chunk k n (concat xs) = xs"
  using chunk_concat[of xs n "[]"] by simp

lemma collect_map_Inr:
  "\<forall>x \<in> set xs. f x = Inr (g x) \<Longrightarrow> collect (map f xs) = Inr (map g xs)"
  by (induction xs) simp_all

lemma length_concat_rect:
  "\<forall>v \<in> set s. length v = d \<Longrightarrow> length (concat s) = length s * d"
  by (induction s) simp_all

lemma rect3_concat:
  "rect3 l d A \<Longrightarrow> \<forall>x \<in> set (map concat A). length x = l * d"
  by (auto simp: rect3_def list_all_iff length_concat_rect)

lemma concat_map2_append:
  "length A = length B \<Longrightarrow>
     concat (map2 (\<lambda>x y. x @ y) (map concat A) (map concat B))
       = concat (map concat (map2 (\<lambda>x y. x @ y) A B))"
  by (induction A B rule: list_induct2) simp_all

lemma cat_dim1_pack3:
  assumes "length A = length B" and "rect3 la d A" and "rect3 lb d B"
  shows "cat_dim1 (pack3 la d A) (pack3 lb d B) = Inr (pack3 (la + lb) d (map2 (\<lambda>x y. x @ y) A B))"
proof -
  have a: "chunk (length B) (la * d) (concat (map concat A)) = map concat A"
    using rect3_concat[OF assms(2)] assms(1) by (intro chunk_concat0) simp_all
  have b: "chunk (length B) (lb * d) (concat (map concat B)) = map concat B"
    using rect3_concat[OF assms(3)] by (intro chunk_concat0) simp_all
  have c: "concat (map2 (\<lambda>x y. x @ y) (map concat A) (map concat B))
             = concat (map concat (map2 (\<lambda>x y. x @ y) A B))"
    using assms(1) by (rule concat_map2_append)
  show ?thesis
    using assms(1) c by (simp add: cat_dim1_def left_out_def pack3_def ndimension_def Let_def a b)
qed

lemma take_concat_butlast:
  "\<forall>v \<in> set s. length v = d \<Longrightarrow> take ((length s - Suc 0) * d) (concat s) = concat (butlast s)"
proof (induction s rule: rev_induct)
  case Nil
  then show ?case by simp
next
  case (snoc x xs)
  then have "length (concat xs) = length xs * d"
    by (intro length_concat_rect) simp
  then show ?case by simp
qed

lemma drop_last_dim1_pack3:
  assumes "rect3 l d A"
  shows "drop_last_dim1 (pack3 l d A) = Inr (pack3 (l - 1) d (map butlast A))"
proof -
  have a: "chunk (length A) (l * d) (concat (map concat A)) = map concat A"
    using rect3_concat[OF assms] by (intro chunk_concat0) simp_all
  have "take ((l - Suc 0) * d) (concat x) = concat (butlast x)" if "x \<in> set A" for x
  proof -
    from that assms have "length x = l" and "\<forall>v \<in> set x. length v = d"
      by (auto simp: rect3_def list_all_iff)
    then show ?thesis using take_concat_butlast[of x d] by simp
  qed
  then have m: "map (\<lambda>x. take ((l - Suc 0) * d) (concat x)) A = map (\<lambda>x. concat (butlast x)) A"
    by (intro map_cong) simp_all
  show ?thesis
    by (simp add: drop_last_dim1_def pack3_def ndimension_def Let_def a comp_def m)
qed

lemma rect3_map2_append:
  "length A = length B \<Longrightarrow> rect3 la d A \<Longrightarrow> rect3 lb d B \<Longrightarrow>
     rect3 (la + lb) d (map2 (\<lambda>x y. x @ y) A B)"
  by (induction A B rule: list_induct2) (simp_all add: rect3_def)

lemma length_style_vectors [simp]: "length (style_vectors w labels) = length labels"
  by (simp add: style_vectors_def)

lemma embedding_row_valid:
  "shape w = [n, d] \<Longrightarrow> 0 \<le> i \<Longrightarrow> i < int n \<Longrightarrow>
     embedding_row w i = Inr (take d (drop (nat i * d) (elems w)))"
  by (simp add: embedding_row_def embedding_dim_def num_embeddings_def)

lemma Embedding_forward_batch:
  assumes "shape w = [n, d]" and "\<forall>i \<in> set labels. 0 \<le> i \<and> i < int n"
  shows "Embedding_forward w (label_batch labels)
           = Inr \<lparr>shape = [length labels, d], elems = concat (style_vectors w labels)\<rparr>"
proof -
  have "collect (map (embedding_row w) labels) = Inr (style_vectors w labels)"
    unfolding style_vectors_def
    using assms by (intro collect_map_Inr) (simp add: embedding_row_def embedding_dim_def num_embeddings_def)
  then show ?thesis
    using assms(1) by (simp add: Embedding_forward_def label_batch_def embedding_dim_def)
qed


lemma style_token_batch:
  assumes "shape w = [n, d]" and "\<forall>i \<in> set labels. 0 \<le> i \<and> i < int n"
  shows "style_token w (label_batch labels)
           = Inr (pack3 1 d (map (\<lambda>r. [r]) (style_vectors w labels)))"
  by (simp add: style_token_def Embedding_forward_batch[OF assms] unsqueeze_def ndimension_def
        pack3_def comp_def)

lemma style_vector_length:
  assumes "shape w = [n, d]" and "wf_tensor w" and "0 \<le> i" and "i < int n"
  shows "length (take d (drop (nat i * d) (elems w))) = d"
proof -
  from assms have "Suc (nat i) \<le> n" by auto
  then have "Suc (nat i) * d \<le> n * d" by (rule mult_le_mono1)
  with assms(1,2) show ?thesis by (simp add: wf_tensor_def)
qed

lemma style_rect:
  assumes "shape w = [n, d]" and "wf_tensor w" and "\<forall>i \<in> set labels. 0 \<le> i \<and> i < int n"
  shows "rect3 1 d (map (\<lambda>r. [r]) (style_vectors w labels))"
proof -
  have "length v = d" if "v \<in> set (style_vectors w labels)" for v
  proof -
    from that obtain i where "i \<in> set labels" and "v = take d (drop (nat i * d) (elems w))"
      using assms(1) by (auto simp: style_vectors_def embedding_dim_def)
    with assms show ?thesis using style_vector_length[of w n d i] by blast
  qed
  then show ?thesis
    by (simp add: rect3_def list_all_iff)
qed


lemma butlast_prepend_token:
  "map butlast (map2 (\<lambda>x y. x @ y) (map (\<lambda>r. [r]) S) A) = map2 (\<lambda>s a. butlast (s # a)) S A"
  by (induction S arbitrary: A) (auto simp: zip_Cons1 split: list.splits)


lemma length_chunk [simp]: "length (chunk k n xs) = k"
  by (induction k arbitrary: xs) simp_all

lemma sum_exp_pos: "r \<noteq> [] \<Longrightarrow> 0 < sum_list (map exp (r::real list))"
proof (induction r)
  case Nil
  then show ?case by simp
next
  case (Cons x xs)
  have "0 \<le> sum_list (map exp xs)" by (rule sum_list_nonneg) auto
  moreover have "0 < exp x" by simp
  ultimately show ?case by (simp add: add_pos_nonneg)
qed

lemma sum_list_divide: "sum_list (map (\<lambda>x. f x / (c::real)) xs) = sum_list (map f xs) / c"
  by (induction xs) (simp_all add: add_divide_distrib)

lemma log_softmax_row_normalised:
  assumes "r \<noteq> []"
  shows "sum_list (map exp (log_softmax_row r)) = 1"
proof -
  let ?S = "sum_list (map exp r)"
  have pos: "0 < ?S" using assms by (rule sum_exp_pos)
  have "map exp (log_softmax_row r) = map (\<lambda>x. exp x / ?S) r"
    using pos by (simp add: log_softmax_row_def exp_diff)
  then have "sum_list (map exp (log_softmax_row r)) = ?S / ?S"
    by (simp add: sum_list_divide)
  with pos show ?thesis by simp
qed

lemma length_log_softmax_row [simp]: "length (log_softmax_row r) = length r"
  by (simp add: log_softmax_row_def)

lemma length_Linear_row:
  "length (weight l) = out_features l \<Longrightarrow> length (bias l) = out_features l \<Longrightarrow>
     length (Linear_row l x) = out_features l"
  by (simp add: Linear_row_def)

lemma rows_last_log_softmax:
  assumes "shape t = s @ [v]" and "elems t = concat rows" and "length rows = prod_list s"
    and "\<forall>r \<in> set rows. length r = v"
  shows "rows_last (log_softmax_last t) = map log_softmax_row rows"
proof -
  have a: "rows_last t = rows"
    using assms by (simp add: rows_last_def chunk_concat0)
  have "chunk (prod_list s) v (concat (map log_softmax_row rows)) = map log_softmax_row rows"
    using assms(3,4) by (intro chunk_concat0) simp_all
  moreover have "log_softmax_last t = t\<lparr>elems := concat (map log_softmax_row rows)\<rparr>"
    by (simp add: log_softmax_last_def a)
  ultimately show ?thesis
    using assms(1) by (simp add: rows_last_def)
qed

lemma Generator_rows:
  assumes "length (weight proj) = out_features proj" and "length (bias proj) = out_features proj"
    and "Generator_forward proj x = Inr y"
  shows "\<forall>r \<in> set (rows_last y). r = [] \<or> sum_list (map exp r) = 1"
proof -
  let ?rows = "map (Linear_row proj) (chunk (prod_list (butlast (shape x))) (in_features proj) (elems x))"
  let ?lin = "\<lparr>shape = butlast (shape x) @ [out_features proj], elems = concat ?rows\<rparr>"
  from assms(3) have y: "y = log_softmax_last ?lin"
    by (auto simp: Generator_forward_def Linear_forward_def split: if_splits)
  have "rows_last (log_softmax_last ?lin) = map log_softmax_row ?rows"
    using assms(1,2) by (intro rows_last_log_softmax[where s="butlast (shape x)" and v="out_features proj"])
      (simp_all add: length_Linear_row)
  with y have "rows_last y = map log_softmax_row ?rows" by simp
  moreover have "r = [] \<or> sum_list (map exp r) = 1" if "r \<in> set (map log_softmax_row ?rows)" for r
  proof -
    from that obtain r0 where r: "r = log_softmax_row r0" by auto
    show ?thesis
    proof (cases "r0 = []")
      case True
      with r show ?thesis by (simp add: log_softmax_row_def)
    next
      case False
      with r show ?thesis by (simp add: log_softmax_row_normalised)
    qed
  qed
  ultimately show ?thesis by simp
qed

lemma rect3_prepend:
  assumes "length S = length A" and "\<forall>v \<in> set S. length v = d" and "rect3 l d A"
  shows "rect3 l d (map2 (\<lambda>s a. butlast (s # a)) S A)"
  using assms
proof (induction S A rule: list_induct2)
  case Nil
  then show ?case by (simp add: rect3_def)
next
  case (Cons s S a A)
  then have "rect3 l d (map2 (\<lambda>s a. butlast (s # a)) S A)" by (simp add: rect3_def)
  moreover have "length (butlast (s # a)) = l"
    using Cons.prems by (simp add: rect3_def del: butlast.simps)
  moreover have "\<forall>v \<in> set (butlast (s # a)). length v = d"
    using Cons.prems by (auto simp: rect3_def list_all_iff dest: in_set_butlastD)
  ultimately show ?case by (simp add: rect3_def list_all_iff del: butlast.simps)
qed

lemma prepend_drop_last:
  assumes "shape w = [n, d]" and "wf_tensor w" and "\<forall>i \<in> set labels. 0 \<le> i \<and> i < int n"
    and "length labels = length A" and "rect3 l d A"
  shows "raise_bind (cat_dim1 (pack3 1 d (map (\<lambda>r. [r]) (style_vectors w labels))) (pack3 l d A))
           drop_last_dim1
         = Inr (pack3 l d (map2 (\<lambda>s a. butlast (s # a)) (style_vectors w labels) A))"
proof -
  let ?S = "map (\<lambda>r. [r]) (style_vectors w labels)"
  let ?M = "map2 (\<lambda>x y. x @ y) ?S A"
  have len: "length ?S = length A" using assms(4) by simp
  have r: "rect3 1 d ?S" using assms(1-3) by (rule style_rect)
  have c: "cat_dim1 (pack3 1 d ?S) (pack3 l d A) = Inr (pack3 (1 + l) d ?M)"
    using len r assms(5) by (rule cat_dim1_pack3)
  have "rect3 (1 + l) d ?M"
    using len r assms(5) by (rule rect3_map2_append)
  then have "drop_last_dim1 (pack3 (1 + l) d ?M) = Inr (pack3 (1 + l - 1) d (map butlast ?M))"
    by (rule drop_last_dim1_pack3)
  moreover have "map butlast ?M = map2 (\<lambda>s a. butlast (s # a)) (style_vectors w labels) A"
    by (rule butlast_prepend_token)
  ultimately have "drop_last_dim1 (pack3 (1 + l) d ?M)
      = Inr (pack3 l d (map2 (\<lambda>s a. butlast (s # a)) (style_vectors w labels) A))"
    by simp
  with c show ?thesis
    by (simp only: raise_bind_Inr)
qed

lemma style_token_scalar:
  assumes "shape w = [n, d]" and "wf_tensor w" and "0 \<le> i" and "i < int n"
  shows "style_token w (label_scalar i) = Inr (pack3 1 d (map (\<lambda>r. [r]) (style_vectors w [i])))"
proof -
  let ?row = "take d (drop (nat i * d) (elems w))"
  have len: "length ?row = d" using assms by (rule style_vector_length)
  have e: "Embedding_forward w (label_scalar i) = Inr \<lparr>shape = [d], elems = ?row\<rparr>"
    using assms(1,3,4)
    by (simp add: Embedding_forward_def label_scalar_def embedding_row_def embedding_dim_def
          num_embeddings_def)
  have "map (\<lambda>k. ?row ! k) [0..<d] = ?row"
    using len map_nth[of ?row] by simp
  then have p: "permute_1_0 \<lparr>shape = [d, 1], elems = ?row\<rparr> = Inr \<lparr>shape = [1, d], elems = ?row\<rparr>"
    by (simp add: permute_1_0_def)
  have u: "unsqueeze 1 \<lparr>shape = [d], elems = ?row\<rparr> = Inr \<lparr>shape = [d, 1], elems = ?row\<rparr>"
    by (simp add: unsqueeze_def ndimension_def)
  have u0: "unsqueeze 0 \<lparr>shape = [1, d], elems = ?row\<rparr> = Inr \<lparr>shape = [1, 1, d], elems = ?row\<rparr>"
    by (simp add: unsqueeze_def ndimension_def)
  have "style_token w (label_scalar i) = Inr \<lparr>shape = [1, 1, d], elems = ?row\<rparr>"
    unfolding style_token_def e raise_bind_Inr u
    by (simp add: ndimension_def p u0 del: One_nat_def)
  moreover have "pack3 1 d (map (\<lambda>r. [r]) (style_vectors w [i])) = \<lparr>shape = [1, 1, d], elems = ?row\<rparr>"
    using assms(1) by (simp add: pack3_def style_vectors_def embedding_dim_def)
  ultimately show ?thesis by simp
qed

lemma style_token_scalar_batch:
  assumes "shape w = [n, d]" and "wf_tensor w" and "0 \<le> i" and "i < int n"
  shows "style_token w (label_scalar i) = style_token w (label_batch [i])"
  using style_token_scalar[OF assms] style_token_batch[of w n d "[i]"] assms by simp

lemma Embedding_forward_shape:
  "Embedding_forward w idx = Inr e \<Longrightarrow> shape e = shape idx @ [embedding_dim w]"
  by (auto simp: Embedding_forward_def raise_bind_def split: sum.splits)

lemma style_token_many_dims:
  assumes "2 \<le> ndimension idx" and "Embedding_forward w idx = Inr e"
  shows "\<exists>a. style_token w idx = Inr a \<and> 4 \<le> ndimension a"
proof -
  have s: "shape e = shape idx @ [embedding_dim w]" using assms(2) by (rule Embedding_forward_shape)
  then have n: "ndimension e = ndimension idx + 1" by (simp add: ndimension_def)
  let ?a = "e\<lparr>shape := take 1 (shape e) @ [1] @ drop 1 (shape e)\<rparr>"
  have u: "unsqueeze 1 e = Inr ?a" using n assms(1) by (simp add: unsqueeze_def)
  have na: "ndimension ?a = ndimension idx + 2"
    using n assms(1) by (simp add: ndimension_def)
  then have "style_token w idx = Inr ?a"
    using assms(1) unfolding style_token_def assms(2) raise_bind_Inr u by simp
  with na assms(1) show ?thesis by auto
qed

lemma cat_dim1_rank_mismatch:
  assumes "4 \<le> ndimension a"
  shows "cat_dim1 a (pack3 l d enc) = Inl RuntimeError"
proof -
  from assms have "shape a \<noteq> [0]" by (auto simp: ndimension_def)
  with assms show ?thesis
    by (simp add: cat_dim1_def left_out_def pack3_def ndimension_def)
qed

lemma forward_many_dims:
  assumes "2 \<le> ndimension idx" and "Embedding_forward (sd_style_embed self) idx = Inr e"
  shows "StyleDecoder_forward self (pack3 l d enc) idx src_mask tgt tgt_mask = Inl RuntimeError"
proof -
  from style_token_many_dims[OF assms] obtain a where
    a: "style_token (sd_style_embed self) idx = Inr a" and n: "4 \<le> ndimension a" by blast
  show ?thesis
    unfolding StyleDecoder_forward_def a raise_bind_Inr cat_dim1_rank_mismatch[OF n]
    by simp
qed

lemma rows_last_Linear:
  assumes "shape x \<noteq> []" and "last (shape x) = in_features proj"
  shows "Linear_forward proj x
           = Inr \<lparr>shape = butlast (shape x) @ [out_features proj],
                  elems = concat (map (Linear_row proj) (rows_last x))\<rparr>"
  using assms by (simp add: Linear_forward_def rows_last_def)

lemma Generator_forward_spec:
  assumes "length (weight proj) = out_features proj" and "length (bias proj) = out_features proj"
    and "shape x \<noteq> []" and "last (shape x) = in_features proj"
  shows "\<exists>y. Generator_forward proj x = Inr y
             \<and> shape y = butlast (shape x) @ [out_features proj]
             \<and> rows_last y = map (\<lambda>r. log_softmax_row (Linear_row proj r)) (rows_last x)
             \<and> list_all (\<lambda>r. length r = out_features proj
                               \<and> (0 < out_features proj \<longrightarrow> sum_list (map exp r) = 1))
                  (rows_last y)"
proof -
  let ?rows = "map (Linear_row proj) (rows_last x)"
  let ?lin = "\<lparr>shape = butlast (shape x) @ [out_features proj], elems = concat ?rows\<rparr>"
  let ?y = "log_softmax_last ?lin"
  have g: "Generator_forward proj x = Inr ?y"
    by (simp add: Generator_forward_def rows_last_Linear[OF assms(3,4)])
  have k: "length (rows_last x) = prod_list (butlast (shape x))"
    using assms(3) by (simp add: rows_last_def)
  have r: "rows_last ?y = map log_softmax_row ?rows"
    using assms(1,2) k
    by (intro rows_last_log_softmax[where s="butlast (shape x)" and v="out_features proj"])
      (simp_all add: length_Linear_row)
  have sh: "shape ?y = butlast (shape x) @ [out_features proj]"
    by (simp add: log_softmax_last_def)
  have "length q = out_features proj \<and> (0 < out_features proj \<longrightarrow> sum_list (map exp q) = 1)"
    if "q \<in> set (map log_softmax_row ?rows)" for q
  proof -
    from that obtain r0 where q: "q = log_softmax_row (Linear_row proj r0)" by auto
    have l: "length (Linear_row proj r0) = out_features proj"
      using assms(1,2) by (rule length_Linear_row)
    then have "0 < out_features proj \<longrightarrow> Linear_row proj r0 \<noteq> []" by auto
    with q l show ?thesis by (auto simp: log_softmax_row_normalised)
  qed
  then have "list_all (\<lambda>r. length r = out_features proj
                               \<and> (0 < out_features proj \<longrightarrow> sum_list (map exp r) = 1))
                  (rows_last ?y)"
    unfolding r list_all_iff by blast
  with g sh r show ?thesis by (simp add: comp_def)
qed

text \<open>
  C1, as stated, fails for a style-label batch of two dimensions: for labels of sizes (2, 1)
  the embedded and unsqueezed style has four dimensions (2, 1, 1, d), neither rank test of
  \<open>forward\<close> applies, and \<open>torch.cat\<close> with the encoder output of three dimensions raises.
\<close>

theorem StyleDecoder_forward_label_matrix_raises:
  "StyleDecoder_forward
     \<lparr>sd_decoder = (\<lambda>t m (sm::unit) (tm::unit). Inr t),
      sd_src_embed = (\<lambda>tgt. Inr (pack3 2 2 [[[5, 6], [7, 8]], [[9, 10], [11, 12]]])),
      sd_style_embed = \<lparr>shape = [2, 2], elems = [1, 2, 3, 4]\<rparr>,
      sd_generator = Generator_forward
        \<lparr>in_features = 2, out_features = 2, weight = [[1, 0], [0, 1]], bias = [0, 0]\<rparr>\<rparr>
     (pack3 2 2 [[[10, 11], [12, 13]], [[20, 21], [22, 23]]])
     \<lparr>shape = [2, 1], elems = [1, 0]\<rparr> () \<lparr>shape = [2, 2], elems = [7, 7, 7, 7]\<rparr> ()
   = Inl RuntimeError"
  by (simp add: StyleDecoder_forward_def style_token_def Embedding_forward_def embedding_row_def
        embedding_dim_def num_embeddings_def unsqueeze_def ndimension_def cat_dim1_def
        left_out_def pack3_def)

text \<open>
  C1, amended: on an encoder output of sizes (batch, \<open>l\<close>, \<open>d\<close>), a style-label batch of one
  dimension that holds one index of the style table for each sample (or a single such label
  of no dimension, for a batch of one sample) and a target whose embedding has sizes
  (batch, \<open>lt\<close>, \<open>d\<close>), \<open>StyleDecoder.forward\<close> looks up one style vector for each sample, puts
  it as a first timestep before the encoder memory and before the embedded target, drops the
  last timestep of each (so every sample of the memory has \<open>l\<close> timesteps again and every
  sample of the target \<open>lt\<close>), runs the decoder on the modified target against the modified
  memory and applies the generator to its output.  With the \<open>Generator\<close> for a projection to
  the vocabulary it returns, for every position of the decoder output, a row of vocabulary
  size: the log-softmax of the projected position, whose exponentials sum to 1 (over the
  reals).  For a label tensor of two or more dimensions \<open>forward\<close> raises in \<open>torch.cat\<close>.
\<close>

theorem StyleDecoder_forward_prepends_style:
  assumes "shape (sd_style_embed self) = [n, d]" and "wf_tensor (sd_style_embed self)"
    and "\<forall>i \<in> set labels. 0 \<le> i \<and> i < int n"
    and "length labels = length enc" and "rect3 l d enc"
    and "sd_src_embed self tgt = Inr (pack3 lt d emb)"
    and "length labels = length emb" and "rect3 lt d emb"
    and "idx = label_batch labels \<or> (length labels = 1 \<and> idx = label_scalar (hd labels))"
  shows "StyleDecoder_forward self (pack3 l d enc) idx src_mask tgt tgt_mask
           = raise_bind
               (sd_decoder self
                  (pack3 lt d (map2 (\<lambda>s t. butlast (s # t)) (style_vectors (sd_style_embed self) labels) emb))
                  (pack3 l d (map2 (\<lambda>s m. butlast (s # m)) (style_vectors (sd_style_embed self) labels) enc))
                  src_mask tgt_mask)
               (sd_generator self)
         \<and> length (style_vectors (sd_style_embed self) labels) = length enc
         \<and> rect3 l d (map2 (\<lambda>s m. butlast (s # m)) (style_vectors (sd_style_embed self) labels) enc)
         \<and> rect3 lt d (map2 (\<lambda>s t. butlast (s # t)) (style_vectors (sd_style_embed self) labels) emb)
         \<and> (sd_generator self = Generator_forward proj
              \<and> length (weight proj) = out_features proj \<and> length (bias proj) = out_features proj
              \<and> sd_decoder self
                  (pack3 lt d (map2 (\<lambda>s t. butlast (s # t)) (style_vectors (sd_style_embed self) labels) emb))
                  (pack3 l d (map2 (\<lambda>s m. butlast (s # m)) (style_vectors (sd_style_embed self) labels) enc))
                  src_mask tgt_mask = Inr dec
              \<and> shape dec \<noteq> [] \<and> last (shape dec) = in_features proj \<longrightarrow>
              (\<exists>y. StyleDecoder_forward self (pack3 l d enc) idx src_mask tgt tgt_mask = Inr y
                 \<and> shape y = butlast (shape dec) @ [out_features proj]
                 \<and> rows_last y = map (\<lambda>r. log_softmax_row (Linear_row proj r)) (rows_last dec)
                 \<and> list_all (\<lambda>r. length r = out_features proj
                                   \<and> (0 < out_features proj \<longrightarrow> sum_list (map exp r) = 1))
                      (rows_last y)))
         \<and> (2 \<le> ndimension idx' \<and> Embedding_forward (sd_style_embed self) idx' = Inr e \<longrightarrow>
              StyleDecoder_forward self (pack3 l d enc) idx' src_mask tgt tgt_mask = Inl RuntimeError)"
proof -
  let ?w = "sd_style_embed self"
  let ?S = "style_vectors ?w labels"
  let ?T = "pack3 1 d (map (\<lambda>r. [r]) ?S)"
  let ?MEM = "pack3 l d (map2 (\<lambda>s a. butlast (s # a)) ?S enc)"
  let ?TGT = "pack3 lt d (map2 (\<lambda>s a. butlast (s # a)) ?S emb)"
  have tb: "style_token ?w (label_batch labels) = Inr ?T"
    using assms(1,3) by (rule style_token_batch)
  have t: "style_token ?w idx = Inr ?T"
  proof (cases "idx = label_batch labels")
    case True
    with tb show ?thesis by simp
  next
    case False
    with assms(9) have one: "length labels = 1" and i: "idx = label_scalar (hd labels)" by simp_all
    from one obtain i0 where l: "labels = [i0]" by (cases labels) auto
    with assms(3) have "0 \<le> i0" and "i0 < int n" by simp_all
    with assms(1,2) have "style_token ?w (label_scalar i0) = style_token ?w (label_batch [i0])"
      by (rule style_token_scalar_batch)
    with tb l i show ?thesis by simp
  qed
  have m: "raise_bind (cat_dim1 ?T (pack3 l d enc)) drop_last_dim1 = Inr ?MEM"
    using assms(1-5) by (rule prepend_drop_last)
  have g: "raise_bind (cat_dim1 ?T (pack3 lt d emb)) drop_last_dim1 = Inr ?TGT"
    using assms(1-3,7,8) by (rule prepend_drop_last)
  have "StyleDecoder_forward self (pack3 l d enc) idx src_mask tgt tgt_mask
          = raise_bind (style_token ?w idx) (\<lambda>add.
            raise_bind (raise_bind (cat_dim1 add (pack3 l d enc)) drop_last_dim1) (\<lambda>memory.
            raise_bind (sd_src_embed self tgt) (\<lambda>embedded.
            raise_bind (raise_bind (cat_dim1 add embedded) drop_last_dim1) (\<lambda>tgt_modified.
            raise_bind (sd_decoder self tgt_modified memory src_mask tgt_mask) (sd_generator self)))))"
    by (simp add: StyleDecoder_forward_def raise_bind_def split: sum.splits)
  also have "\<dots> = raise_bind (sd_decoder self ?TGT ?MEM src_mask tgt_mask) (sd_generator self)"
    by (simp only: t m g assms(6) raise_bind_Inr)
  finally have main: "StyleDecoder_forward self (pack3 l d enc) idx src_mask tgt tgt_mask
           = raise_bind (sd_decoder self ?TGT ?MEM src_mask tgt_mask) (sd_generator self)" .
  have vl: "\<forall>v \<in> set ?S. length v = d"
    using style_rect[OF assms(1-3)] by (simp add: rect3_def list_all_iff)
  have r1: "rect3 l d (map2 (\<lambda>s m. butlast (s # m)) ?S enc)"
    using assms(4,5) vl by (intro rect3_prepend) simp_all
  have r2: "rect3 lt d (map2 (\<lambda>s t. butlast (s # t)) ?S emb)"
    using assms(7,8) vl by (intro rect3_prepend) simp_all
  have gen: "\<exists>y. StyleDecoder_forward self (pack3 l d enc) idx src_mask tgt tgt_mask = Inr y
                 \<and> shape y = butlast (shape dec) @ [out_features proj]
                 \<and> rows_last y = map (\<lambda>r. log_softmax_row (Linear_row proj r)) (rows_last dec)
                 \<and> list_all (\<lambda>r. length r = out_features proj
                                   \<and> (0 < out_features proj \<longrightarrow> sum_list (map exp r) = 1))
                      (rows_last y)"
    if "sd_generator self = Generator_forward proj
              \<and> length (weight proj) = out_features proj \<and> length (bias proj) = out_features proj
              \<and> sd_decoder self ?TGT ?MEM src_mask tgt_mask = Inr dec
              \<and> shape dec \<noteq> [] \<and> last (shape dec) = in_features proj"
  proof -
    from that have "StyleDecoder_forward self (pack3 l d enc) idx src_mask tgt tgt_mask
                      = Generator_forward proj dec"
      by (simp add: main)
    moreover from that have "\<exists>y. Generator_forward proj dec = Inr y
             \<and> shape y = butlast (shape dec) @ [out_features proj]
             \<and> rows_last y = map (\<lambda>r. log_softmax_row (Linear_row proj r)) (rows_last dec)
             \<and> list_all (\<lambda>r. length r = out_features proj
                               \<and> (0 < out_features proj \<longrightarrow> sum_list (map exp r) = 1))
                  (rows_last y)"
      by (intro Generator_forward_spec) simp_all
    ultimately show ?thesis by simp
  qed
  have many: "StyleDecoder_forward self (pack3 l d enc) idx' src_mask tgt tgt_mask = Inl RuntimeError"
    if "2 \<le> ndimension idx' \<and> Embedding_forward ?w idx' = Inr e"
    using that by (intro forward_many_dims[of idx' self e]) simp_all
  from main r1 r2 gen many assms(4) show ?thesis by simp
qed

theorem StyleDecoder_forward_prepends_style_witness:
  "wf_tensor \<lparr>shape = [2, 2], elems = [1, 2, 3, 4::real]\<rparr>
   \<and> rect3 2 2 [[[10, 11], [12, 13]], [[20, 21], [22, 23::real]]]
   \<and> rect3 2 2 [[[5, 6], [7, 8]], [[9, 10], [11, 12::real]]]
   \<and> style_vectors \<lparr>shape = [2, 2], elems = [1, 2, 3, 4]\<rparr> [1, 0] = [[3, 4], [1, 2]]
   \<and> StyleDecoder_forward
        \<lparr>sd_decoder = (\<lambda>t m (sm::unit) (tm::unit).
                         Inr \<lparr>shape = [length (elems t) + length (elems m)], elems = elems t @ elems m\<rparr>),
         sd_src_embed = (\<lambda>tgt. Inr (pack3 2 2 [[[5, 6], [7, 8]], [[9, 10], [11, 12]]])),
         sd_style_embed = \<lparr>shape = [2, 2], elems = [1, 2, 3, 4]\<rparr>,
         sd_generator = Inr\<rparr>
        (pack3 2 2 [[[10, 11], [12, 13]], [[20, 21], [22, 23]]]) (label_batch [1, 0]) ()
        \<lparr>shape = [2, 2], elems = [7, 7, 7, 7]\<rparr> ()
       = Inr \<lparr>shape = [16],
               elems = [3, 4, 5, 6, 1, 2, 9, 10, 3, 4, 10, 11, 1, 2, 20, 21]\<rparr>
   \<and> StyleDecoder_forward
        \<lparr>sd_decoder = (\<lambda>t m (sm::unit) (tm::unit). Inr m),
         sd_src_embed = (\<lambda>tgt. Inr (pack3 2 2 [[[5, 6], [7, 8]]])),
         sd_style_embed = \<lparr>shape = [2, 2], elems = [1, 2, 3, 4]\<rparr>,
         sd_generator = Inr\<rparr>
        (pack3 2 2 [[[10, 11], [12, 13]]]) (label_scalar 1) ()
        \<lparr>shape = [1, 2], elems = [7, 7]\<rparr> ()
       = Inr \<lparr>shape = [1, 2, 2], elems = [3, 4, 10, 11]\<rparr>
   \<and> StyleDecoder_forward
        \<lparr>sd_decoder = (\<lambda>t m (sm::unit) (tm::unit). Inr t),
         sd_src_embed = (\<lambda>tgt. Inr (pack3 2 2 [[[5, 6], [7, 8]], [[9, 10], [11, 12]]])),
         sd_style_embed = \<lparr>shape = [2, 2], elems = [1, 2, 3, 4]\<rparr>,
         sd_generator = Generator_forward
           \<lparr>in_features = 2, out_features = 2, weight = [[1, 0], [0, 1]], bias = [0, 0]\<rparr>\<rparr>
        (pack3 2 2 [[[10, 11], [12, 13]], [[20, 21], [22, 23]]]) (label_batch [1, 0]) ()
        \<lparr>shape = [2, 2], elems = [7, 7, 7, 7]\<rparr> ()
       = Inr \<lparr>shape = [2, 2, 2],
               elems = log_softmax_row [3, 4] @ log_softmax_row [5, 6]
                       @ log_softmax_row [1, 2] @ log_softmax_row [9, 10]\<rparr>
   \<and> sum_list (map exp (log_softmax_row [3, 4])) = 1"
proof -
  let ?P = "\<lparr>in_features = 2, out_features = 2, weight = [[1, 0], [0, 1]], bias = [0, 0]\<rparr>"
  let ?dec = "pack3 2 2 [[[3, 4], [5, 6]], [[1, 2], [9, 10::real]]]"
  have a: "StyleDecoder_forward
        \<lparr>sd_decoder = (\<lambda>t m (sm::unit) (tm::unit).
                         Inr \<lparr>shape = [length (elems t) + length (elems m)], elems = elems t @ elems m\<rparr>),
         sd_src_embed = (\<lambda>tgt. Inr (pack3 2 2 [[[5, 6], [7, 8]], [[9, 10], [11, 12]]])),
         sd_style_embed = \<lparr>shape = [2, 2], elems = [1, 2, 3, 4]\<rparr>,
         sd_generator = Inr\<rparr>
        (pack3 2 2 [[[10, 11], [12, 13]], [[20, 21], [22, 23]]]) (label_batch [1, 0]) ()
        \<lparr>shape = [2, 2], elems = [7, 7, 7, 7]\<rparr> ()
       = Inr \<lparr>shape = [16],
               elems = [3, 4, 5, 6, 1, 2, 9, 10, 3, 4, 10, 11, 1, 2, 20, 21]\<rparr>"
    using StyleDecoder_forward_prepends_style [where
      self="\<lparr>sd_decoder = (\<lambda>t m (sm::unit) (tm::unit).
                         Inr \<lparr>shape = [length (elems t) + length (elems m)], elems = elems t @ elems m\<rparr>),
         sd_src_embed = (\<lambda>tgt. Inr (pack3 2 2 [[[5, 6], [7, 8]], [[9, 10], [11, 12]]])),
         sd_style_embed = \<lparr>shape = [2, 2], elems = [1, 2, 3, 4]\<rparr>,
         sd_generator = Inr\<rparr>"
      and n=2 and d=2 and labels="[1, 0]" and idx="label_batch [1, 0]"
      and enc="[[[10, 11], [12, 13]], [[20, 21], [22, 23]]]" and l=2
      and tgt="\<lparr>shape = [2, 2], elems = [7, 7, 7, 7]\<rparr>" and lt=2
      and emb="[[[5, 6], [7, 8]], [[9, 10], [11, 12]]]"
      and src_mask="()" and tgt_mask="()"]
    by (simp add: wf_tensor_def rect3_def style_vectors_def embedding_dim_def pack3_def)
  have b: "StyleDecoder_forward
        \<lparr>sd_decoder = (\<lambda>t m (sm::unit) (tm::unit). Inr m),
         sd_src_embed = (\<lambda>tgt. Inr (pack3 2 2 [[[5, 6], [7, 8]]])),
         sd_style_embed = \<lparr>shape = [2, 2], elems = [1, 2, 3, 4]\<rparr>,
         sd_generator = Inr\<rparr>
        (pack3 2 2 [[[10, 11], [12, 13]]]) (label_scalar 1) ()
        \<lparr>shape = [1, 2], elems = [7, 7]\<rparr> ()
       = Inr \<lparr>shape = [1, 2, 2], elems = [3, 4, 10, 11]\<rparr>"
    using StyleDecoder_forward_prepends_style [where
      self="\<lparr>sd_decoder = (\<lambda>t m (sm::unit) (tm::unit). Inr m),
         sd_src_embed = (\<lambda>tgt. Inr (pack3 2 2 [[[5, 6], [7, 8]]])),
         sd_style_embed = \<lparr>shape = [2, 2], elems = [1, 2, 3, 4]\<rparr>,
         sd_generator = Inr\<rparr>"
      and n=2 and d=2 and labels="[1]" and idx="label_scalar 1"
      and enc="[[[10, 11], [12, 13]]]" and l=2
      and tgt="\<lparr>shape = [1, 2], elems = [7, 7]\<rparr>" and lt=2
      and emb="[[[5, 6], [7, 8]]]"
      and src_mask="()" and tgt_mask="()"]
    by (simp add: wf_tensor_def rect3_def style_vectors_def embedding_dim_def pack3_def)
  let ?self = "\<lparr>sd_decoder = (\<lambda>t m (sm::unit) (tm::unit). Inr t),
         sd_src_embed = (\<lambda>tgt. Inr (pack3 2 2 [[[5, 6], [7, 8]], [[9, 10], [11, 12]]])),
         sd_style_embed = \<lparr>shape = [2, 2], elems = [1, 2, 3, 4]\<rparr>,
         sd_generator = Generator_forward ?P\<rparr>"
  let ?enc = "[[[10, 11], [12, 13]], [[20, 21], [22, 23::real]]]"
  let ?emb = "[[[5, 6], [7, 8]], [[9, 10], [11, 12::real]]]"
  let ?tgt = "\<lparr>shape = [2, 2], elems = [7, 7, 7, 7::int]\<rparr>"
  have h1: "shape (sd_style_embed ?self) = [2, 2]" by simp
  have h2: "wf_tensor (sd_style_embed ?self)" by (simp add: wf_tensor_def)
  have h3: "\<forall>i \<in> set [1, 0::int]. 0 \<le> i \<and> i < int 2" by simp
  have h4: "length [1, 0::int] = length ?enc" by simp
  have h5: "rect3 2 2 ?enc" by (simp add: rect3_def)
  have h6: "sd_src_embed ?self ?tgt = Inr (pack3 2 2 ?emb)" by simp
  have h7: "length [1, 0::int] = length ?emb" by simp
  have h8: "rect3 2 2 ?emb" by (simp add: rect3_def)
  have h9: "label_batch [1, 0] = label_batch [1, 0]
              \<or> (length [1, 0::int] = 1 \<and> label_batch [1, 0] = label_scalar (hd [1, 0]))" by simp
  have hg: "sd_generator ?self = Generator_forward ?P
              \<and> length (weight ?P) = out_features ?P \<and> length (bias ?P) = out_features ?P
              \<and> sd_decoder ?self
                  (pack3 2 2 (map2 (\<lambda>s t. butlast (s # t)) (style_vectors (sd_style_embed ?self) [1, 0]) ?emb))
                  (pack3 2 2 (map2 (\<lambda>s m. butlast (s # m)) (style_vectors (sd_style_embed ?self) [1, 0]) ?enc))
                  () () = Inr ?dec
              \<and> shape ?dec \<noteq> [] \<and> last (shape ?dec) = in_features ?P"
    by (simp add: style_vectors_def embedding_dim_def pack3_def)
  from StyleDecoder_forward_prepends_style [where self="?self" and proj="?P" and dec="?dec"
      and src_mask="()" and tgt_mask="()", OF h1 h2 h3 h4 h5 h6 h7 h8 h9] hg
  have "\<exists>y. StyleDecoder_forward ?self (pack3 2 2 ?enc) (label_batch [1, 0]) () ?tgt () = Inr y
      \<and> shape y = butlast (shape ?dec) @ [out_features ?P]
      \<and> rows_last y = map (\<lambda>r. log_softmax_row (Linear_row ?P r)) (rows_last ?dec)
      \<and> list_all (\<lambda>r. length r = out_features ?P
                        \<and> (0 < out_features ?P \<longrightarrow> sum_list (map exp r) = 1)) (rows_last y)"
    by blast
  then obtain y where
    y: "StyleDecoder_forward ?self (pack3 2 2 ?enc) (label_batch [1, 0]) () ?tgt () = Inr y"
    and rl: "rows_last y = map (\<lambda>r. log_softmax_row (Linear_row ?P r)) (rows_last ?dec)"
    and rows: "list_all (\<lambda>r. length r = out_features ?P
                        \<and> (0 < out_features ?P \<longrightarrow> sum_list (map exp r) = 1)) (rows_last y)"
    by blast
  have "rows_last ?dec = [[3, 4], [5, 6], [1, 2], [9, 10]]"
    by (simp add: rows_last_def pack3_def eval_nat_numeral)
  with rl have "rows_last y = [log_softmax_row [3, 4], log_softmax_row [5, 6],
                               log_softmax_row [1, 2], log_softmax_row [9, 10]]"
    by (simp add: Linear_row_def dot_def)
  with rows have one: "sum_list (map exp (log_softmax_row [3, 4])) = 1"
    by simp
  have c: "StyleDecoder_forward
        \<lparr>sd_decoder = (\<lambda>t m (sm::unit) (tm::unit). Inr t),
         sd_src_embed = (\<lambda>tgt. Inr (pack3 2 2 [[[5, 6], [7, 8]], [[9, 10], [11, 12]]])),
         sd_style_embed = \<lparr>shape = [2, 2], elems = [1, 2, 3, 4]\<rparr>,
         sd_generator = Generator_forward ?P\<rparr>
        (pack3 2 2 [[[10, 11], [12, 13]], [[20, 21], [22, 23]]]) (label_batch [1, 0]) ()
        \<lparr>shape = [2, 2], elems = [7, 7, 7, 7]\<rparr> ()
       = Inr \<lparr>shape = [2, 2, 2],
               elems = log_softmax_row [3, 4] @ log_softmax_row [5, 6]
                       @ log_softmax_row [1, 2] @ log_softmax_row [9, 10]\<rparr>"
    by (simp add: StyleDecoder_forward_def style_token_def Embedding_forward_def embedding_row_def
          embedding_dim_def num_embeddings_def unsqueeze_def ndimension_def cat_dim1_def
          left_out_def pack3_def label_batch_def drop_last_dim1_def Generator_forward_def
          Linear_forward_def Linear_row_def dot_def log_softmax_last_def rows_last_def)
  from a b c one show ?thesis
    by (simp add: wf_tensor_def rect3_def style_vectors_def embedding_dim_def)
qed



section \<open>Properties of attention\<close>
























section \<open>Properties of multi-head attention\<close>

lemma raise_bind_Inr_iff:
  "raise_bind m f = Inr y \<longleftrightarrow> (\<exists>x. m = Inr x \<and> f x = Inr y)"
  by (cases m) (simp_all add: raise_bind_def)

lemma head_split:
  assumes "0 < (h::int)" and "0 < (d::int)" and "d mod h = 0"
  shows "h * (d div h) = d \<and> 0 < d div h"
proof -
  from assms(3) have dv: "h dvd d" by (simp add: mod_eq_0_iff_dvd)
  then have e: "h * (d div h) = d" by simp
  from dv assms(2) have "h \<le> d" by (rule zdvd_imp_le)
  with assms(1) have "0 < d div h" by (simp add: pos_imp_zdiv_pos_iff)
  with e show ?thesis by simp
qed

lemma view_split:
  assumes "0 < h" and "0 < d" and "d mod h = 0" and "0 < B"
  shows "view_shape [B, L, nat d] [int B, - 1, h, d div h] = Inr [B, L, nat h, nat (d div h)]"
proof -
  have e: "h * (d div h) = d" and p: "0 < d div h" using head_split[OF assms(1-3)] by simp_all
  have k: "int B * (h * (d div h)) = int B * d" by (simp add: e)
  have n: "int (B * (L * nat d)) = int L * (int B * d)" using assms(2) by simp
  have nz: "int B * d \<noteq> 0" using assms by simp
  have nm1: "h \<noteq> - 1" "d div h \<noteq> - 1" "int B \<noteq> - 1" using assms(1) p by auto
  have nl: "\<not> h < - 1" "\<not> d div h < - 1" "\<not> int B < - 1" using assms(1) p by auto
  show ?thesis
    unfolding view_shape_def Let_def
    using nm1 nl nz assms(2) by (simp add: k n)
qed


lemma view_shape_heads:
  assumes "0 < a" and "0 < b"
  shows "view_shape s [int B, - 1, a, b] =
           (if B = 0 \<or> int (prod_list s) mod (int B * (a * b)) \<noteq> 0 then Inl RuntimeError
            else Inr [B, nat (int (prod_list s) div (int B * (a * b))), nat a, nat b])"
proof -
  have nm1: "a \<noteq> - 1" "b \<noteq> - 1" "int B \<noteq> - 1" using assms by auto
  have nl: "\<not> a < - 1" "\<not> b < - 1" "\<not> int B < - 1" using assms by auto
  have z: "int B * (a * b) = 0 \<longleftrightarrow> B = 0" using assms by simp
  show ?thesis
    unfolding view_shape_def Let_def
    using nm1 nl z by simp
qed

lemma view_shape_merge:
  assumes "0 < c"
  shows "view_shape s [int B, - 1, c] =
           (if B = 0 \<or> int (prod_list s) mod (int B * c) \<noteq> 0 then Inl RuntimeError
            else Inr [B, nat (int (prod_list s) div (int B * c)), nat c])"
proof -
  have nm1: "c \<noteq> - 1" "int B \<noteq> - 1" using assms by auto
  have nl: "\<not> c < - 1" "\<not> int B < - 1" using assms by auto
  have z: "int B * c = 0 \<longleftrightarrow> B = 0" using assms by simp
  show ?thesis
    unfolding view_shape_def Let_def
    using nm1 nl z by simp
qed

lemma quotient_rows:
  assumes "0 < B" and "0 < (c::int)"
  shows "int (B * (L * nat c)) mod (int B * c) = 0"
    and "nat (int (B * (L * nat c)) div (int B * c)) = L"
proof -
  have n: "int (B * (L * nat c)) = int L * (int B * c)" using assms(2) by simp
  have nz: "int B * c \<noteq> 0" using assms by simp
  show "int (B * (L * nat c)) mod (int B * c) = 0" by (simp only: n mod_mult_self2_is_0)
  have "int (B * (L * nat c)) div (int B * c) = int L"
    unfolding n using nz by (rule nonzero_mult_div_cancel_right)
  then show "nat (int (B * (L * nat c)) div (int B * c)) = L"
    by (simp only: nat_int)
qed


lemma project_shape_form:
  assumes "0 < mha_h m" and "0 < mha_d_k m" and "project_shape m B x = Inr y"
  shows "\<exists>n. y = [B, nat (mha_h m), n, nat (mha_d_k m)]"
  using assms(3)
  by (auto simp: project_shape_def raise_bind_Inr_iff view_shape_heads[OF assms(1,2)]
        transpose_shape_def split: if_splits)

lemma project_shape_query:
  assumes "0 < h" and "0 < d" and "d mod h = 0"
    and "project_shape \<lparr>mha_d_k = d div h, mha_h = h, mha_d_model = d\<rparr> B [B, L, X] = Inr y"
  shows "X = nat d \<and> 0 < B \<and> y = [B, nat h, L, nat (d div h)]"
proof -
  have e: "h * (d div h) = d" and p: "0 < d div h" using head_split[OF assms(1-3)] by simp_all
  from assms(4) have X: "X = nat d"
    by (auto simp: project_shape_def raise_bind_Inr_iff Linear_shape_def split: if_splits)
  with assms(4) have v: "raise_bind (view_shape [B, L, nat d] [int B, - 1, h, d div h])
                           (transpose_shape 1 2) = Inr y"
    by (simp add: project_shape_def raise_bind_Inr_iff Linear_shape_def)
  then have B: "0 < B"
    by (auto simp: raise_bind_Inr_iff view_shape_heads[OF assms(1) p] split: if_splits)
  from v B show ?thesis
    using quotient_rows[OF B assms(2), of L] X
    by (auto simp: raise_bind_Inr_iff view_shape_heads[OF assms(1) p] e transpose_shape_def
          split: if_splits)
qed

lemma project_shape_ok:
  assumes "0 < h" and "0 < d" and "d mod h = 0" and "0 < B"
  shows "project_shape \<lparr>mha_d_k = d div h, mha_h = h, mha_d_model = d\<rparr> B [B, L, nat d]
           = Inr [B, nat h, L, nat (d div h)]"
proof -
  have e: "h * (d div h) = d" and p: "0 < d div h" using head_split[OF assms(1-3)] by simp_all
  show ?thesis
    using quotient_rows[OF assms(4,2), of L] assms(4)
    by (simp add: project_shape_def Linear_shape_def view_shape_heads[OF assms(1) p] e
          transpose_shape_def)
qed

lemma broadcast_shapes_heads:
  "broadcast_shapes [B, H] [B, H] = Inr [B, H]"
  by (simp add: broadcast_shapes_def)

lemma matmul_shape_heads:
  "matmul_shape [B, H, n, k] [B, H, k', m] =
     (if k = k' then Inr [B, H, n, m] else Inl RuntimeError)"
  by (simp add: matmul_shape_def Let_def broadcast_shapes_heads eval_nat_numeral)

lemma masked_fill_shape_within:
  assumes "mb = B \<or> mb = 1" and "ml = L \<or> ml = 1"
    and "masked_fill_shape [B, H, L, n] [mb, 1, ml, mk] = Inr s"
  shows "\<exists>n'. s = [B, H, L, n']"
  using assms
  by (auto simp: masked_fill_shape_def broadcast_shapes_def split: if_splits)

lemma masked_fill_shape_fits:
  assumes "mb = B \<or> mb = 1" and "ml = L \<or> ml = 1" and "mk = n \<or> mk = 1"
  shows "masked_fill_shape [B, H, L, n] [mb, 1, ml, mk] = Inr [B, H, L, n]"
  using assms
  by (auto simp: masked_fill_shape_def broadcast_shapes_def)

lemma attention_shape_form:
  assumes "attention_shape [B, H, L, K] [B, H, n1, K] [B, H, n2, K] msk = Inr x"
    and "case msk of None \<Rightarrow> True
         | Some ms \<Rightarrow> \<exists>mb ml mk. ms = [mb, 1, ml, mk] \<and> (mb = B \<or> mb = 1) \<and> (ml = L \<or> ml = 1)"
  shows "x = [B, H, L, K]"
proof (cases msk)
  case None
  with assms(1) show ?thesis
    by (auto simp: attention_shape_def raise_bind_Inr_iff transpose_shape_def matmul_shape_heads
          split: if_splits)
next
  case (Some ms)
  with assms(2) obtain mb ml mk where ms: "ms = [mb, 1, ml, mk]"
    and b: "mb = B \<or> mb = 1" and l: "ml = L \<or> ml = 1" by auto
  from assms(1) Some ms obtain p where
    f: "masked_fill_shape [B, H, L, n1] [mb, 1, ml, mk] = Inr p"
    and m: "matmul_shape p [B, H, n2, K] = Inr x"
    by (auto simp: attention_shape_def raise_bind_Inr_iff transpose_shape_def matmul_shape_heads
          split: if_splits)
  from masked_fill_shape_within[OF b l f] obtain n' where "p = [B, H, L, n']" by auto
  with m show ?thesis by (auto simp: matmul_shape_heads split: if_splits)
qed

lemma attention_shape_ok:
  assumes "case msk of None \<Rightarrow> True
         | Some ms \<Rightarrow> \<exists>mb ml mk. ms = [mb, 1, ml, mk] \<and> (mb = B \<or> mb = 1) \<and> (ml = L \<or> ml = 1)
                        \<and> (mk = Lk \<or> mk = 1)"
  shows "attention_shape [B, H, L, K] [B, H, Lk, K] [B, H, Lk, K] msk = Inr [B, H, L, K]"
proof (cases msk)
  case None
  then show ?thesis
    by (simp add: attention_shape_def transpose_shape_def matmul_shape_heads)
next
  case (Some ms)
  with assms obtain mb ml mk where ms: "ms = [mb, 1, ml, mk]"
    and b: "mb = B \<or> mb = 1" and l: "ml = L \<or> ml = 1" and k: "mk = Lk \<or> mk = 1" by auto
  show ?thesis
    unfolding Some ms
    using masked_fill_shape_fits[OF b l k, of H]
    by (simp add: attention_shape_def transpose_shape_def matmul_shape_heads)
qed

lemma merge_heads:
  assumes "0 < h" and "0 < d" and "d mod h = 0" and "0 < B"
  shows "raise_bind (view_shape [B, L, nat h, nat (d div h)] [int B, - 1, h * (d div h)])
           (Linear_shape (nat d) (nat d)) = Inr [B, L, nat d]"
proof -
  have e: "h * (d div h) = d" and p: "0 < d div h" using head_split[OF assms(1-3)] by simp_all
  have "nat h * nat (d div h) = nat d"
    using assms(1) p e by (metis nat_mult_distrib less_imp_le)
  then have n: "prod_list [B, L, nat h, nat (d div h)] = B * (L * nat d)" by simp
  show ?thesis
    using quotient_rows[OF assms(4,2), of L] assms(2,4)
    by (simp only: e view_shape_merge[OF assms(2)] n) (simp add: Linear_shape_def)
qed

lemma forward_shape_form:
  assumes "0 < h" and "0 < d" and "d mod h = 0" and "mask_within B L msk"
    and "MultiHeadedAttention_forward_shape \<lparr>mha_d_k = d div h, mha_h = h, mha_d_model = d\<rparr>
           [B, L, X] key v msk = Inr s"
  shows "s = [B, L, X]"
proof -
  let ?m = "\<lparr>mha_d_k = d div h, mha_h = h, mha_d_model = d\<rparr>"
  let ?msk = "case msk of None \<Rightarrow> None | Some ms \<Rightarrow> Some (take 1 ms @ [1] @ drop 1 ms)"
  have p: "0 < d div h" using head_split[OF assms(1-3)] by simp
  have m: "(case msk of None \<Rightarrow> Inr None
            | Some ms \<Rightarrow> if ms = [] then Inl IndexError
                        else Inr (Some (take 1 ms @ [1] @ drop 1 ms))) = Inr ?msk"
    using assms(4) by (auto simp: mask_within_def split: option.splits list.splits)
  from assms(5) obtain q k' v' x x' where
    q: "project_shape ?m B [B, L, X] = Inr q"
    and k: "project_shape ?m B key = Inr k'"
    and v: "project_shape ?m B v = Inr v'"
    and a: "attention_shape q k' v' ?msk = Inr x"
    and t: "transpose_shape 1 2 x = Inr x'"
    and f: "raise_bind (view_shape x' [int B, - 1, h * (d div h)]) (Linear_shape (nat d) (nat d)) = Inr s"
    unfolding MultiHeadedAttention_forward_shape_def m
    by (auto simp: raise_bind_Inr_iff Let_def split: if_splits)
  from project_shape_query[OF assms(1-3) q]
  have X: "X = nat d" and B: "0 < B" and q': "q = [B, nat h, L, nat (d div h)]" by simp_all
  from project_shape_form[of ?m B key k'] assms(1) p k
  obtain n1 where k': "k' = [B, nat h, n1, nat (d div h)]" by auto
  from project_shape_form[of ?m B v v'] assms(1) p v
  obtain n2 where v': "v' = [B, nat h, n2, nat (d div h)]" by auto
  have w: "case ?msk of None \<Rightarrow> True
           | Some ms \<Rightarrow> \<exists>mb ml mk. ms = [mb, 1, ml, mk] \<and> (mb = B \<or> mb = 1) \<and> (ml = L \<or> ml = 1)"
    using assms(4) by (auto simp: mask_within_def split: option.splits list.splits)
  from a have "x = [B, nat h, L, nat (d div h)]"
    unfolding q' k' v' using w by (rule attention_shape_form)
  with t have "x' = [B, L, nat h, nat (d div h)]"
    by (auto simp: transpose_shape_def)
  with f merge_heads[OF assms(1-3) B, of L] have "s = [B, L, nat d]" by simp
  with X show ?thesis by simp
qed

lemma forward_shape_ok:
  assumes "0 < h" and "0 < d" and "d mod h = 0" and "0 < B" and "mask_fits B L Lk msk"
  shows "MultiHeadedAttention_forward_shape \<lparr>mha_d_k = d div h, mha_h = h, mha_d_model = d\<rparr>
           [B, L, nat d] [B, Lk, nat d] [B, Lk, nat d] msk = Inr [B, L, nat d]"
proof -
  let ?m = "\<lparr>mha_d_k = d div h, mha_h = h, mha_d_model = d\<rparr>"
  let ?msk = "case msk of None \<Rightarrow> None | Some ms \<Rightarrow> Some (take 1 ms @ [1] @ drop 1 ms)"
  have m: "(case msk of None \<Rightarrow> Inr None
            | Some ms \<Rightarrow> if ms = [] then Inl IndexError
                        else Inr (Some (take 1 ms @ [1] @ drop 1 ms))) = Inr ?msk"
    using assms(5) by (auto simp: mask_fits_def split: option.splits list.splits)
  have w: "case ?msk of None \<Rightarrow> True
           | Some ms \<Rightarrow> \<exists>mb ml mk. ms = [mb, 1, ml, mk] \<and> (mb = B \<or> mb = 1) \<and> (ml = L \<or> ml = 1)
                          \<and> (mk = Lk \<or> mk = 1)"
    using assms(5) by (auto simp: mask_fits_def split: option.splits list.splits)
  have a: "attention_shape [B, nat h, L, nat (d div h)] [B, nat h, Lk, nat (d div h)]
             [B, nat h, Lk, nat (d div h)] ?msk = Inr [B, nat h, L, nat (d div h)]"
    using w by (rule attention_shape_ok)
  have t: "transpose_shape 1 2 [B, nat h, L, nat (d div h)] = Inr [B, L, nat h, nat (d div h)]"
    by (simp add: transpose_shape_def)
  show ?thesis
    unfolding MultiHeadedAttention_forward_shape_def m
    using merge_heads[OF assms(1-4), of L]
    by (simp add: project_shape_ok[OF assms(1-4)] a t Let_def del: One_nat_def)
qed

text \<open>
  C6, as the claim states it, is refuted: with \<open>h = 2\<close> and \<open>d_model = 8\<close> (so \<open>d_model % h == 0\<close>)
  \<open>forward\<close> returns sizes (5, 1, 8) on a query of sizes (5, 8), and sizes (1, 15, 8) on a query
  of sizes (1, 5, 8) with keys and values of sizes (1, 7, 8) and a mask of sizes (3, 1, 7),
  which \<open>masked_fill\<close> broadcasts the scores to.
\<close>

theorem MultiHeadedAttention_output_shape_differs:
  "MultiHeadedAttention_init 2 8 = Inr \<lparr>mha_d_k = 4, mha_h = 2, mha_d_model = 8\<rparr>
   \<and> MultiHeadedAttention_forward_shape \<lparr>mha_d_k = 4, mha_h = 2, mha_d_model = 8\<rparr>
        [5, 8] [5, 8] [5, 8] None = Inr [5, 1, 8]
   \<and> MultiHeadedAttention_forward_shape \<lparr>mha_d_k = 4, mha_h = 2, mha_d_model = 8\<rparr>
        [1, 5, 8] [1, 7, 8] [1, 7, 8] (Some [3, 1, 7]) = Inr [1, 15, 8]"
  by code_simp

text \<open>
  C6, amended: for every number of heads \<open>h > 0\<close> and model dimension \<open>d > 0\<close> with
  \<open>d % h == 0\<close> the constructor of \<open>MultiHeadedAttention\<close> succeeds, with \<open>d_k = d // h\<close>; whenever
  \<open>forward\<close> then returns on a query of three dimensions, of sizes (B, L, X), with no mask or
  a mask of three dimensions whose first two sizes are B or 1 and L or 1, its output has
  exactly the sizes of the query; and it does return on a query of sizes (B, L, d) with
  \<open>B > 0\<close>, keys and values of sizes (B, Lk, d) and no mask or such a mask whose last size is
  Lk or 1.  When \<open>d\<close> is not divisible by \<open>h \<noteq> 0\<close> the constructor fails with the
  \<open>AssertionError\<close> of its assertion, and it never succeeds unless \<open>h\<close> divides \<open>d\<close>.
\<close>

theorem MultiHeadedAttention_output_shape:
  "(0 < h \<and> 0 < d \<and> d mod h = 0 \<longrightarrow>
      MultiHeadedAttention_init h d = Inr \<lparr>mha_d_k = d div h, mha_h = h, mha_d_model = d\<rparr>
      \<and> (mask_within B L msk \<and>
         MultiHeadedAttention_forward_shape \<lparr>mha_d_k = d div h, mha_h = h, mha_d_model = d\<rparr>
            [B, L, X] key v msk = Inr s \<longrightarrow> s = [B, L, X])
      \<and> (0 < B \<and> mask_fits B L Lk msk' \<longrightarrow>
           MultiHeadedAttention_forward_shape \<lparr>mha_d_k = d div h, mha_h = h, mha_d_model = d\<rparr>
             [B, L, nat d] [B, Lk, nat d] [B, Lk, nat d] msk' = Inr [B, L, nat d]))
   \<and> (h \<noteq> 0 \<and> d mod h \<noteq> 0 \<longrightarrow> MultiHeadedAttention_init h d = Inl AssertionError)
   \<and> (MultiHeadedAttention_init h d = Inr m \<longrightarrow> h \<noteq> 0 \<and> d mod h = 0)"
proof (intro conjI impI)
  assume a: "0 < h \<and> 0 < d \<and> d mod h = 0"
  then show "MultiHeadedAttention_init h d = Inr \<lparr>mha_d_k = d div h, mha_h = h, mha_d_model = d\<rparr>"
    by (simp add: MultiHeadedAttention_init_def)
  {
    assume "mask_within B L msk \<and>
        MultiHeadedAttention_forward_shape \<lparr>mha_d_k = d div h, mha_h = h, mha_d_model = d\<rparr>
              [B, L, X] key v msk = Inr s"
    with a show "s = [B, L, X]" by (intro forward_shape_form[of h d B L msk X key v s]) simp_all
  }
  {
    assume "0 < B \<and> mask_fits B L Lk msk'"
    with a show "MultiHeadedAttention_forward_shape \<lparr>mha_d_k = d div h, mha_h = h, mha_d_model = d\<rparr>
             [B, L, nat d] [B, Lk, nat d] [B, Lk, nat d] msk' = Inr [B, L, nat d]"
      by (intro forward_shape_ok) simp_all
  }
next
  assume "h \<noteq> 0 \<and> d mod h \<noteq> 0"
  then show "MultiHeadedAttention_init h d = Inl AssertionError"
    by (simp add: MultiHeadedAttention_init_def)
next
  assume "MultiHeadedAttention_init h d = Inr m"
  then show "h \<noteq> 0" and "d mod h = 0"
    by (auto simp: MultiHeadedAttention_init_def split: if_splits)
qed

theorem MultiHeadedAttention_output_shape_witness:
  "(0::int) < 2 \<and> (0::int) < 8 \<and> (8::int) mod 2 = 0
   \<and> MultiHeadedAttention_init 2 8 = Inr \<lparr>mha_d_k = 4, mha_h = 2, mha_d_model = 8\<rparr>
   \<and> mask_within 2 5 (Some [1, 5, 1]) \<and> mask_fits 2 5 7 (Some [2, 1, 7])
   \<and> MultiHeadedAttention_forward_shape \<lparr>mha_d_k = 4, mha_h = 2, mha_d_model = 8\<rparr>
         [2, 5, 8] [2, 3, 8] [2, 3, 8] (Some [1, 5, 1]) = Inr [2, 5, 8]
   \<and> MultiHeadedAttention_forward_shape \<lparr>mha_d_k = 4, mha_h = 2, mha_d_model = 8\<rparr>
         [2, 5, 8] [2, 7, 8] [2, 7, 8] (Some [2, 1, 7]) = Inr [2, 5, 8]
   \<and> (3::int) \<noteq> 0 \<and> (8::int) mod 3 \<noteq> 0
   \<and> MultiHeadedAttention_init 3 8 = Inl AssertionError"
proof -
  have f: "MultiHeadedAttention_forward_shape \<lparr>mha_d_k = 4, mha_h = 2, mha_d_model = 8\<rparr>
         [2, 5, 8] [2, 3, 8] [2, 3, 8] (Some [1, 5, 1]) = Inr [2, 5, 8]"
    by code_simp
  have w: "mask_within 2 5 (Some [1, 5, 1])" "mask_fits 2 5 7 (Some [2, 1, 7])"
    by (simp_all add: mask_within_def mask_fits_def)
  show ?thesis
    using f w
      MultiHeadedAttention_output_shape [where h=2 and d=8 and B=2 and L=5 and X=8 and Lk=7
        and key="[2, 3, 8]" and v="[2, 3, 8]" and msk="Some [1, 5, 1]" and s="[2, 5, 8]"
        and msk'="Some [2, 1, 7]" and m="\<lparr>mha_d_k = 4, mha_h = 2, mha_d_model = 8\<rparr>"]
      MultiHeadedAttention_output_shape [where h=3 and d=8 and B=2 and L=5 and X=8 and Lk=7
        and key="[2, 3, 8]" and v="[2, 3, 8]" and msk="Some [1, 5, 1]" and s="[2, 5, 8]"
        and msk'="Some [2, 1, 7]" and m="\<lparr>mha_d_k = 4, mha_h = 2, mha_d_model = 8\<rparr>"]
    by simp
qed

end
